theory Spec2Isabelle
  imports Main "HOL-Library.Word"
begin

unbundle bit_operations_syntax

section \<open>Shared declarations\<close>

text \<open>
  \<^verbatim>\<open>PpWord\<close> is declared in \<^verbatim>\<open>types.h\<close>, which is not among the sources: a 16-bit
  unsigned holding a 12-bit channel word. \<^verbatim>\<open>u8\<close>, \<open>u16\<close>, \<open>u32\<close>, \<open>u64\<close> are the
  usual fixed-width unsigned integers, \<^verbatim>\<open>int\<close> is 32 bits wide.
\<close>

type_synonym PpWord = "16 word"
type_synonym u8 = "8 word"
type_synonym u16 = "16 word"
type_synonym u32 = "32 word"
type_synonym u64 = "64 word"

datatype FcStatus = FcDeclined | FcAccepted | FcProcessed

text \<open>The channel of \<^verbatim>\<open>activeChannel\<close>: the fields the three devices touch.\<close>

record Channel =
  data :: PpWord
  full :: bool
  status :: PpWord
  chId :: u8

text \<open>\<^verbatim>\<open>struct tm\<close> as filled by \<^verbatim>\<open>localtime\<close>: the fields the sources read.\<close>

record Tm =
  tm_year :: int
  tm_mon :: int
  tm_mday :: int
  tm_hour :: int
  tm_min :: int
  tm_sec :: int

text \<open>
  File names are built by \<^verbatim>\<open>sprintf_s\<close>; one constructor stands for each format string:
  \<^item> \<open>LP1612_C path ch\<close> for \<^verbatim>\<open>"%sLP1612_C%02o"\<close>,
  \<^item> \<open>LP5xx_C_E path ch eq\<close> for \<^verbatim>\<open>"%sLP5xx_C%02o_E%o"\<close>,
  \<^item> \<open>LP5xx_stamp path t n\<close> for \<^verbatim>\<open>"%sLP5xx_%04d%02d%02d_%02d%02d%02d_%02d"\<close>,
  \<^item> \<open>LP5xx_stamp_txt path t n\<close> for the same format followed by \<^verbatim>\<open>".txt"\<close>.
\<close>

datatype FileName =
    LP1612_C string int
  | LP5xx_C_E string int int
  | LP5xx_stamp string Tm nat
  | LP5xx_stamp_txt string Tm nat

text \<open>The lines the printers write with \<^verbatim>\<open>printf\<close>, one constructor for each message.\<close>

datatype LogMsg =
    NotEnoughParams
  | InvalidChannelNo
  | InvalidEquipmentNo
  | FcbIsNull string u8 u8
  | NoOutputWritten int int
  | CouldNotRename FileName FileName
  | FailedToOpen FileName
  | PaperRemoved FileName
  | UnknownLP3555 PpWord
  | UnknownLP3152 PpWord

text \<open>The calls into the C library that act on the capture file.\<close>

datatype HostCall =
    Fflush
  | Fclose
  | Rename FileName FileName
  | Fopen FileName

text \<open>
  What the host answers during one call of a device function: whether the device lookup
  (\<^verbatim>\<open>channelFindDevice\<close>, \<^verbatim>\<open>dcc6681FindDevice\<close>) finds the slot, whether \<^verbatim>\<open>rename\<close>
  succeeds at attempt \<open>n\<close>, the wall clock read before attempt \<open>n\<close>, and whether the
  final \<^verbatim>\<open>fopen\<close> succeeds.
\<close>

record HostEnv =
  findDevice :: bool
  renameOk :: "nat \<Rightarrow> bool"
  clock :: "nat \<Rightarrow> Tm"
  fopenOk :: bool

text \<open>
  Constants and tables of the headers and of the character-set module, none of which is
  among the sources. They are parameters of the model.
\<close>

record Decls =
  MaxChannels :: int
  MaxEquipment :: int
  Fc6681MasterClear :: PpWord
  Fc6681Output :: PpWord
  Fc6681DevStatusReq :: PpWord
  bcdToAscii :: "nat \<Rightarrow> char"
  extBcdToAscii :: "nat \<Rightarrow> char"
  consoleToAscii :: "nat \<Rightarrow> char"
  asciiToCdc :: "nat \<Rightarrow> u8"
  asciiToConsole :: "nat \<Rightarrow> u8"
  FontDot :: u8
  FontSmall :: u8
  FontMedium :: u8
  FontLarge :: u8
  OffLeftScreen :: u16
  OffRightScreen :: u16

text \<open>
  The device slot (\<^verbatim>\<open>DevSlot\<close>) with its channel. \<open>context0\<close> is \<^verbatim>\<open>context[0]\<close> and
  \<open>fcb\<close> is \<^verbatim>\<open>fcb[0]\<close>: \<open>None\<close>
  for a null handle, otherwise the bytes written since the file was opened (all opens
  truncate, so this is the file). \<open>oplog\<close> collects the \<^verbatim>\<open>printf\<close> lines and
  \<open>hostcalls\<close> the library calls on the file, oldest first.

  \<open>intSummary\<close> is the interrupt summary of the device, kept by the 6681 converter.
\<close>

record 'c DevSlot =
  channel :: Channel
  eqNo :: u8
  fcode :: PpWord
  fcb :: "string option"
  context0 :: 'c
  intSummary :: bool
  oplog :: "LogMsg list"
  hostcalls :: "HostCall list"

abbreviation NL :: char where "NL \<equiv> CHR 0x0A"
abbreviation FF :: char where "FF \<equiv> CHR 0x0C"
abbreviation CR :: char where "CR \<equiv> CHR 0x0D"
abbreviation TAB :: char where "TAB \<equiv> CHR 0x09"

abbreviation Mask6 :: PpWord where "Mask6 \<equiv> 63"
abbreviation Mask9 :: PpWord where "Mask9 \<equiv> 511"

definition printf :: "LogMsg \<Rightarrow> 'c DevSlot \<Rightarrow> 'c DevSlot" where
  "printf m s = s\<lparr>oplog := oplog s @ [m]\<rparr>"

text \<open>
  Modelled from the spec: \<^verbatim>\<open>dcc6681Interrupt\<close> belongs to the 6681 converter, which is
  not among the sources. The specification calls what it maintains the aggregate
  device-interrupt summary; the model stores the value passed to it in \<open>intSummary\<close>.
\<close>

definition dcc6681Interrupt :: "bool \<Rightarrow> 'c DevSlot \<Rightarrow> 'c DevSlot" where
  "dcc6681Interrupt b s = s\<lparr>intSummary := b\<rparr>"

definition hostcall :: "HostCall \<Rightarrow> 'c DevSlot \<Rightarrow> 'c DevSlot" where
  "hostcall c s = s\<lparr>hostcalls := hostcalls s @ [c]\<rparr>"

text \<open>\<^verbatim>\<open>fputc\<close> and \<^verbatim>\<open>fprintf\<close> of a constant string, on an open handle.\<close>

definition fputs :: "string \<Rightarrow> 'c DevSlot \<Rightarrow> 'c DevSlot" where
  "fputs str s = s\<lparr>fcb := map_option (\<lambda>f. f @ str) (fcb s)\<rparr>"

text \<open>\<^verbatim>\<open>ftell\<close>: the position in a file opened for writing is the number of bytes written.\<close>

definition ftell :: "string \<Rightarrow> nat" where
  "ftell f = length f"

text \<open>
  The rename loop of both \<open>RemovePaper\<close> functions: up to \<open>n\<close> further attempts, the
  next one with suffix \<open>i\<close>. Returns the slot and the last name tried.
\<close>

fun renameLoop ::
  "HostEnv \<Rightarrow> (Tm \<Rightarrow> nat \<Rightarrow> FileName) \<Rightarrow> FileName \<Rightarrow> nat \<Rightarrow> nat \<Rightarrow> FileName \<Rightarrow> 'c DevSlot
     \<Rightarrow> 'c DevSlot \<times> FileName" where
  "renameLoop env mk fname 0 i fnameNew s = (s, fnameNew)"
| "renameLoop env mk fname (Suc n) i fnameNew s =
     (let new = mk (clock env i) i;
          s' = hostcall (Rename fname new) s
      in if renameOk env i then (s', new)
         else renameLoop env mk fname n (Suc i) new (printf (CouldNotRename fname new) s'))"

section \<open>The 1612 line printer (lp1612.c)\<close>

abbreviation FcPrintSelect :: PpWord where "FcPrintSelect \<equiv> 384"            \<comment> \<open>00600\<close>
abbreviation FcPrintSingleSpace :: PpWord where "FcPrintSingleSpace \<equiv> 385"  \<comment> \<open>00601\<close>
abbreviation FcPrintDoubleSpace :: PpWord where "FcPrintDoubleSpace \<equiv> 386"  \<comment> \<open>00602\<close>
abbreviation FcPrintMoveChannel7 :: PpWord where "FcPrintMoveChannel7 \<equiv> 387" \<comment> \<open>00603\<close>
abbreviation FcPrintMoveTOF :: PpWord where "FcPrintMoveTOF \<equiv> 388"         \<comment> \<open>00604\<close>
abbreviation FcPrintPrint :: PpWord where "FcPrintPrint \<equiv> 389"             \<comment> \<open>00605\<close>
abbreviation FcPrintSuppressLF :: PpWord where "FcPrintSuppressLF \<equiv> 390"    \<comment> \<open>00606\<close>
abbreviation FcPrintStatusReq :: PpWord where "FcPrintStatusReq \<equiv> 391"      \<comment> \<open>00607\<close>
abbreviation FcPrintClearFormat :: PpWord where "FcPrintClearFormat \<equiv> 392"  \<comment> \<open>00610\<close>
abbreviation FcPrintFormat1 :: PpWord where "FcPrintFormat1 \<equiv> 393"          \<comment> \<open>00611\<close>
abbreviation FcPrintFormat6 :: PpWord where "FcPrintFormat6 \<equiv> 398"          \<comment> \<open>00616\<close>
abbreviation StPrintReady1612 :: PpWord where "StPrintReady1612 \<equiv> 2048"     \<comment> \<open>04000\<close>

record LpContext1612 =
  extuseANSI1612 :: bool
  extPath1612 :: string

text \<open>
  \<^verbatim>\<open>lp1612Init\<close> after the parameter string has been split: the path (if any) and the
  mode. A failed \<^verbatim>\<open>fopen\<close> exits the emulator, so the slot starts with an open, empty
  file. The channel is the one the slot was attached to.
\<close>

definition lp1612Init :: "Channel \<Rightarrow> bool \<Rightarrow> string option \<Rightarrow> LpContext1612 DevSlot" where
  "lp1612Init ch useANSI devicePath =
     \<lparr>channel = ch, eqNo = 0, fcode = 0, fcb = Some [],
      context0 = \<lparr>extuseANSI1612 = useANSI,
                 extPath1612 = (case devicePath of None \<Rightarrow> []
                                | Some p \<Rightarrow> if p = [] then [] else p @ ''/'')\<rparr>,
      intSummary = False, oplog = [], hostcalls = []\<rparr>"

text \<open>
  \<^verbatim>\<open>lp1612RemovePaper\<close>. The argument is what \<^verbatim>\<open>sscanf(params, "%o,%o", ...)\<close> returned
  and stored: the count and the two numbers.
\<close>

definition lp1612RemovePaper ::
  "Decls \<Rightarrow> HostEnv \<Rightarrow> int \<times> int \<times> int \<Rightarrow> LpContext1612 DevSlot \<Rightarrow> LpContext1612 DevSlot" where
  "lp1612RemovePaper K env params dp =
     (case params of (numParam, channelNo, equipmentNo) \<Rightarrow>
        if numParam \<noteq> 2 then printf NotEnoughParams dp
        else if channelNo < 0 \<or> channelNo \<ge> MaxChannels K then printf InvalidChannelNo dp
        else if equipmentNo < 0 \<or> equipmentNo \<ge> MaxEquipment K then printf InvalidEquipmentNo dp
        else if \<not> findDevice env then dp
        else
          let fname = LP1612_C (extPath1612 (context0 dp)) channelNo in
          case fcb dp of
            None \<Rightarrow> printf (FcbIsNull ''lp1612RemovePaper'' (chId (channel dp)) (eqNo dp)) dp
          | Some f \<Rightarrow>
              let dp1 = hostcall Fflush dp in
              if ftell f = 0 then printf (NoOutputWritten channelNo equipmentNo) dp1
              else
                let dp2 = (hostcall Fclose dp1)\<lparr>fcb := None\<rparr>;
                    (dp3, fnameNew) =
                       renameLoop env (LP5xx_stamp (extPath1612 (context0 dp))) fname 100 0 fname dp2;
                    dp4 = (hostcall (Fopen fname) dp3)\<lparr>fcb := (if fopenOk env then Some [] else None)\<rparr>
                in if fcb dp4 = None then printf (FailedToOpen fname) dp4
                   else printf (PaperRemoved fnameNew) dp4)"

text \<open>\<^verbatim>\<open>lp1612Func\<close>. The last two lines of the C function are \<open>accept1612\<close>.\<close>

definition accept1612 :: "PpWord \<Rightarrow> LpContext1612 DevSlot \<Rightarrow> FcStatus \<times> LpContext1612 DevSlot" where
  "accept1612 funcCode s = (FcAccepted, s\<lparr>fcode := funcCode\<rparr>)"

definition lp1612Func :: "PpWord \<Rightarrow> LpContext1612 DevSlot \<Rightarrow> FcStatus \<times> LpContext1612 DevSlot" where
  "lp1612Func funcCode s =
     (let ansi = extuseANSI1612 (context0 s) in
      if fcb s = None then
        (FcProcessed, printf (FcbIsNull ''lp1612Func'' (chId (channel s)) (eqNo s)) s)
      else if funcCode = FcPrintSelect then accept1612 funcCode s
      else if funcCode = FcPrintSingleSpace then
        accept1612 funcCode (fputs (if ansi then [NL, CHR '' ''] else [NL]) s)
      else if funcCode = FcPrintDoubleSpace then
        accept1612 funcCode (fputs (if ansi then [NL, CHR ''0''] else [NL, NL]) s)
      else if funcCode = FcPrintMoveChannel7 then
        accept1612 funcCode (fputs (if ansi then [NL, CHR '' ''] else [NL]) s)
      else if funcCode = FcPrintMoveTOF then
        accept1612 funcCode (fputs (if ansi then [NL, CHR ''1''] else [FF]) s)
      else if funcCode = FcPrintPrint then
        accept1612 funcCode (fputs (if ansi then [NL, CHR '' ''] else [NL]) s)
      else if funcCode = FcPrintSuppressLF then
        (FcProcessed, fputs (if ansi then [NL, CHR ''+''] else [CR]) s)
      else if funcCode = FcPrintStatusReq then
        accept1612 funcCode (s\<lparr>channel := (channel s)\<lparr>status := StPrintReady1612\<rparr>\<rparr>)
      else if FcPrintClearFormat \<le> funcCode \<and> funcCode \<le> FcPrintFormat6 then
        accept1612 funcCode s
      else (FcDeclined, s))"

text \<open>\<^verbatim>\<open>lp1612Io\<close>: every latched code but the status request prints one character.\<close>

definition lp1612Io :: "Decls \<Rightarrow> LpContext1612 DevSlot \<Rightarrow> LpContext1612 DevSlot" where
  "lp1612Io K s =
     (if fcb s = None then printf (FcbIsNull ''lp1612Io'' (chId (channel s)) (eqNo s)) s
      else if fcode s = FcPrintStatusReq then
        s\<lparr>channel := (channel s)\<lparr>data := status (channel s), full := True, status := 0\<rparr>,
          fcode := 0\<rparr>
      else if full (channel s) then
        (fputs [extBcdToAscii K (unat (data (channel s) AND 63))] s)
          \<lparr>channel := (channel s)\<lparr>full := False\<rparr>\<rparr>
      else s)"

definition lp1612Disconnect :: "LpContext1612 DevSlot \<Rightarrow> LpContext1612 DevSlot" where
  "lp1612Disconnect s =
     (if fcb s = None then
        printf (FcbIsNull ''lp1612Disconnect'' (chId (channel s)) (eqNo s)) s
      else if extuseANSI1612 (context0 s) then fputs [NL, CHR '' ''] s
      else fputs [NL] s)"

text \<open>The peripheral processor puts a word on the channel.\<close>

definition ppOutput :: "PpWord \<Rightarrow> 'c DevSlot \<Rightarrow> 'c DevSlot" where
  "ppOutput w s = s\<lparr>channel := (channel s)\<lparr>data := w, full := True\<rparr>\<rparr>"

text \<open>
  Scenario 1 of the specification on a printer in ASCII mode: select, one data word,
  single space, disconnect. The result is the capture file.
\<close>

definition scenario1612 :: "Decls \<Rightarrow> Channel \<Rightarrow> PpWord \<Rightarrow> string option" where
  "scenario1612 K ch w =
     (let s0 = lp1612Init ch False (Some ''/tmp'');
          s1 = snd (lp1612Func FcPrintSelect s0);
          s2 = lp1612Io K (ppOutput w s1);
          s3 = snd (lp1612Func FcPrintSingleSpace s2);
          s4 = lp1612Disconnect s3
      in fcb s4)"

section \<open>The 3000-series line printer (lp3000.c)\<close>

text \<open>Flags stored in the context field (\<^verbatim>\<open>int flags\<close>), with the octal values of the source.\<close>

abbreviation Lp3000Type501 :: "32 word" where "Lp3000Type501 \<equiv> 1"           \<comment> \<open>00001\<close>
abbreviation Lp3000Type512 :: "32 word" where "Lp3000Type512 \<equiv> 2"           \<comment> \<open>00002\<close>
abbreviation Lp3000Type3152 :: "32 word" where "Lp3000Type3152 \<equiv> 8"         \<comment> \<open>00010\<close>
abbreviation Lp3000Type3555 :: "32 word" where "Lp3000Type3555 \<equiv> 16"        \<comment> \<open>00020\<close>
abbreviation Lp3555FillImageMem :: "32 word" where "Lp3555FillImageMem \<equiv> 64" \<comment> \<open>00100\<close>
abbreviation Lp3000IntReady :: "32 word" where "Lp3000IntReady \<equiv> 128"        \<comment> \<open>00200\<close>
abbreviation Lp3000IntEnd :: "32 word" where "Lp3000IntEnd \<equiv> 256"            \<comment> \<open>00400\<close>
abbreviation Lp3000IntReadyEna :: "32 word" where "Lp3000IntReadyEna \<equiv> 1024" \<comment> \<open>02000\<close>
abbreviation Lp3000IntEndEna :: "32 word" where "Lp3000IntEndEna \<equiv> 2048"     \<comment> \<open>04000\<close>

text \<open>Status reply bits; the two interrupt bits have the codes of the flags.\<close>

abbreviation StPrintReady :: "32 word" where "StPrintReady \<equiv> 1"               \<comment> \<open>00001\<close>
abbreviation StPrintIntReady :: "32 word" where "StPrintIntReady \<equiv> 128"       \<comment> \<open>00200\<close>
abbreviation StPrintIntEnd :: "32 word" where "StPrintIntEnd \<equiv> 256"           \<comment> \<open>00400\<close>

text \<open>Function codes common to both controllers.\<close>

abbreviation FcPrintRelease :: PpWord where "FcPrintRelease \<equiv> 0"
abbreviation FcPrintSingle :: PpWord where "FcPrintSingle \<equiv> 1"
abbreviation FcPrintDouble :: PpWord where "FcPrintDouble \<equiv> 2"
abbreviation FcPrintLastLine :: PpWord where "FcPrintLastLine \<equiv> 3"
abbreviation FcPrintEject :: PpWord where "FcPrintEject \<equiv> 4"
abbreviation FcPrintAutoEject :: PpWord where "FcPrintAutoEject \<equiv> 5"
abbreviation FcPrintNoSpace :: PpWord where "FcPrintNoSpace \<equiv> 6"

text \<open>Function codes of the 3152/3256/3659.\<close>

abbreviation Fc3152ClearFormat :: PpWord where "Fc3152ClearFormat \<equiv> 8"        \<comment> \<open>00010\<close>
abbreviation Fc3152PostVFU1 :: PpWord where "Fc3152PostVFU1 \<equiv> 9"              \<comment> \<open>00011\<close>
abbreviation Fc3152PostVFU6 :: PpWord where "Fc3152PostVFU6 \<equiv> 14"             \<comment> \<open>00016\<close>
abbreviation Fc3152SelectPreprint :: PpWord where "Fc3152SelectPreprint \<equiv> 16" \<comment> \<open>00020\<close>
abbreviation Fc3152PreVFU1 :: PpWord where "Fc3152PreVFU1 \<equiv> 17"               \<comment> \<open>00021\<close>
abbreviation Fc3152PreVFU6 :: PpWord where "Fc3152PreVFU6 \<equiv> 22"               \<comment> \<open>00026\<close>
abbreviation Fc3152SelIntReady :: PpWord where "Fc3152SelIntReady \<equiv> 24"       \<comment> \<open>00030\<close>
abbreviation Fc3152RelIntReady :: PpWord where "Fc3152RelIntReady \<equiv> 25"       \<comment> \<open>00031\<close>
abbreviation Fc3152SelIntEnd :: PpWord where "Fc3152SelIntEnd \<equiv> 26"           \<comment> \<open>00032\<close>
abbreviation Fc3152RelIntEnd :: PpWord where "Fc3152RelIntEnd \<equiv> 27"           \<comment> \<open>00033\<close>
abbreviation Fc3152SelIntError :: PpWord where "Fc3152SelIntError \<equiv> 28"       \<comment> \<open>00034\<close>
abbreviation Fc3152RelIntError :: PpWord where "Fc3152RelIntError \<equiv> 29"       \<comment> \<open>00035\<close>
abbreviation Fc3152Release2 :: PpWord where "Fc3152Release2 \<equiv> 32"             \<comment> \<open>00040\<close>

text \<open>Function codes of the 3555.\<close>

abbreviation Fc3555CondClearFormat :: PpWord where "Fc3555CondClearFormat \<equiv> 7" \<comment> \<open>00007\<close>
abbreviation Fc3555Sel8Lpi :: PpWord where "Fc3555Sel8Lpi \<equiv> 8"                 \<comment> \<open>00010\<close>
abbreviation Fc3555Sel6Lpi :: PpWord where "Fc3555Sel6Lpi \<equiv> 9"                 \<comment> \<open>00011\<close>
abbreviation Fc3555FillMemory :: PpWord where "Fc3555FillMemory \<equiv> 10"          \<comment> \<open>00012\<close>
abbreviation Fc3555SelExtArray :: PpWord where "Fc3555SelExtArray \<equiv> 11"        \<comment> \<open>00013\<close>
abbreviation Fc3555ClearExtArray :: PpWord where "Fc3555ClearExtArray \<equiv> 12"    \<comment> \<open>00014\<close>
abbreviation Fc3555SelIntReady :: PpWord where "Fc3555SelIntReady \<equiv> 16"        \<comment> \<open>00020\<close>
abbreviation Fc3555RelIntReady :: PpWord where "Fc3555RelIntReady \<equiv> 17"        \<comment> \<open>00021\<close>
abbreviation Fc3555SelIntEnd :: PpWord where "Fc3555SelIntEnd \<equiv> 18"            \<comment> \<open>00022\<close>
abbreviation Fc3555RelIntEnd :: PpWord where "Fc3555RelIntEnd \<equiv> 19"            \<comment> \<open>00023\<close>
abbreviation Fc3555SelIntError :: PpWord where "Fc3555SelIntError \<equiv> 20"        \<comment> \<open>00024\<close>
abbreviation Fc3555RelIntError :: PpWord where "Fc3555RelIntError \<equiv> 21"        \<comment> \<open>00025\<close>
abbreviation Fc3555ReloadMemEnable :: PpWord where "Fc3555ReloadMemEnable \<equiv> 22" \<comment> \<open>00026\<close>
abbreviation Fc3555ClearFormat :: PpWord where "Fc3555ClearFormat \<equiv> 24"        \<comment> \<open>00030\<close>
abbreviation Fc3555PostVFU1 :: PpWord where "Fc3555PostVFU1 \<equiv> 25"              \<comment> \<open>00031\<close>
abbreviation Fc3555PostVFU12 :: PpWord where "Fc3555PostVFU12 \<equiv> 36"            \<comment> \<open>00044\<close>
abbreviation Fc3555SelectPreprint :: PpWord where "Fc3555SelectPreprint \<equiv> 40"  \<comment> \<open>00050\<close>
abbreviation Fc3555PreVFU1 :: PpWord where "Fc3555PreVFU1 \<equiv> 41"                \<comment> \<open>00051\<close>
abbreviation Fc3555PreVFU12 :: PpWord where "Fc3555PreVFU12 \<equiv> 52"              \<comment> \<open>00064\<close>
abbreviation Fc3555MaintStatus :: PpWord where "Fc3555MaintStatus \<equiv> 53"        \<comment> \<open>00065\<close>
abbreviation Fc3555ClearMaint :: PpWord where "Fc3555ClearMaint \<equiv> 54"          \<comment> \<open>00066\<close>

abbreviation LpInchesPerPage :: u8 where "LpInchesPerPage \<equiv> 9"                  \<comment> \<open>00011\<close>

record LpContext =
  flags :: "32 word"
  printed :: bool
  keepInt :: bool
  extspaceopt :: u8
  extlpi :: u8
  extlpp :: u8
  extcurline :: u8
  extuseANSI :: bool
  extsuppress :: bool
  extpostprint :: bool
  extPath :: string

type_synonym Lp3000 = "LpContext DevSlot"

text \<open>
  \<^verbatim>\<open>lp3000Init\<close>, called by \<^verbatim>\<open>lp501Init\<close> and \<^verbatim>\<open>lp512Init\<close> with the type flags, the
  mode and the path (if any). \<^verbatim>\<open>calloc\<close> clears the context; a failed \<^verbatim>\<open>fopen\<close> exits.
\<close>

definition lp3000Init :: "Channel \<Rightarrow> u8 \<Rightarrow> 32 word \<Rightarrow> bool \<Rightarrow> string option \<Rightarrow> Lp3000" where
  "lp3000Init ch eq flgs useANSI devicePath =
     \<lparr>channel = ch, eqNo = eq, fcode = 0, fcb = Some [],
      context0 = \<lparr>flags = flgs, printed = False, keepInt = False,
                  extspaceopt = 1, extlpi = 6, extlpp = LpInchesPerPage * 6, extcurline = 1,
                  extuseANSI = useANSI, extsuppress = False, extpostprint = True,
                  extPath = (case devicePath of None \<Rightarrow> []
                             | Some p \<Rightarrow> if p = [] then [] else p @ ''/'')\<rparr>,
      intSummary = False, oplog = [], hostcalls = []\<rparr>"

text \<open>The flags \<^verbatim>\<open>lp501Init\<close> and \<^verbatim>\<open>lp512Init\<close> can pass: one head and one controller.\<close>

definition initFlags :: "32 word set" where
  "initFlags = {Lp3000Type501 OR Lp3000Type3555, Lp3000Type501 OR Lp3000Type3152,
                Lp3000Type512 OR Lp3000Type3555, Lp3000Type512 OR Lp3000Type3152}"

text \<open>
  \<^verbatim>\<open>lp3000RemovePaper\<close>, with the result of \<^verbatim>\<open>sscanf\<close> as argument. The part compiled
  only under \<^verbatim>\<open>_WIN32\<close>, which starts the print application, is left out.
\<close>

definition lp3000RemovePaper :: "Decls \<Rightarrow> HostEnv \<Rightarrow> int \<times> int \<times> int \<Rightarrow> Lp3000 \<Rightarrow> Lp3000" where
  "lp3000RemovePaper K env params dp =
     (case params of (numParam, channelNo, equipmentNo) \<Rightarrow>
        if numParam \<noteq> 2 then printf NotEnoughParams dp
        else if channelNo < 0 \<or> channelNo \<ge> MaxChannels K then printf InvalidChannelNo dp
        else if equipmentNo < 0 \<or> equipmentNo \<ge> MaxEquipment K then printf InvalidEquipmentNo dp
        else if \<not> findDevice env then dp
        else
          let fname = LP5xx_C_E (extPath (context0 dp)) channelNo equipmentNo in
          case fcb dp of
            None \<Rightarrow> printf (FcbIsNull ''lp3000RemovePaper'' (chId (channel dp)) (eqNo dp)) dp
          | Some f \<Rightarrow>
              let dp1 = hostcall Fflush dp in
              if ftell f = 0 then printf (NoOutputWritten channelNo equipmentNo) dp1
              else
                let dp2 = (hostcall Fclose dp1)\<lparr>fcb := None\<rparr>;
                    (dp3, fnameNew) =
                       renameLoop env (LP5xx_stamp_txt (extPath (context0 dp))) fname 100 0 fname dp2;
                    dp4 = (hostcall (Fopen fname) dp3)\<lparr>fcb := (if fopenOk env then Some [] else None)\<rparr>
                in if fcb dp4 = None then printf (FailedToOpen fname) dp4
                   else printf (PaperRemoved fnameNew) dp4)"

text \<open>Updating the context block \<^verbatim>\<open>lc\<close> of the slot.\<close>

definition lcUpdate :: "(LpContext \<Rightarrow> LpContext) \<Rightarrow> Lp3000 \<Rightarrow> Lp3000" where
  "lcUpdate f s = s\<lparr>context0 := f (context0 s)\<rparr>"

text \<open>
  The select and release cases of the interrupt codes are written out four times in the
  source (ready and end, 3555 and 3152) with the same body; \<open>latch\<close> and \<open>ena\<close> are the
  two flag bits of the case.
\<close>

definition selInt :: "32 word \<Rightarrow> 32 word \<Rightarrow> Lp3000 \<Rightarrow> FcStatus \<times> Lp3000" where
  "selInt latch ena s =
     (let s1 = lcUpdate (\<lambda>lc. lc\<lparr>flags := flags lc OR (latch OR ena)\<rparr>) s;
          s2 = (if keepInt (context0 s1) then lcUpdate (\<lambda>lc. lc\<lparr>keepInt := False\<rparr>) s1
                else lcUpdate (\<lambda>lc. lc\<lparr>flags := flags lc AND NOT latch\<rparr>) s1)
      in (FcProcessed,
          dcc6681Interrupt
            (flags (context0 s2) AND (Lp3000IntReady OR Lp3000IntEnd) \<noteq> 0) s2))"

definition relInt :: "32 word \<Rightarrow> 32 word \<Rightarrow> Lp3000 \<Rightarrow> FcStatus \<times> Lp3000" where
  "relInt latch ena s =
     (let s1 = lcUpdate (\<lambda>lc. lc\<lparr>flags := flags lc AND NOT (ena OR latch)\<rparr>) s
      in (FcProcessed,
          dcc6681Interrupt
            (flags (context0 s1) AND (Lp3000IntReady OR Lp3000IntEnd) \<noteq> 0) s1))"

text \<open>
  The first \<^verbatim>\<open>switch\<close> of \<^verbatim>\<open>lp3000Func\<close> (the common codes and the three 6681 codes), in
  the order of the source. \<open>None\<close> when no label matches and control reaches the
  controller's own \<^verbatim>\<open>switch\<close>.
\<close>

definition lp3000FuncCommon ::
  "Decls \<Rightarrow> HostEnv \<Rightarrow> PpWord \<Rightarrow> Lp3000 \<Rightarrow> (FcStatus \<times> Lp3000) option" where
  "lp3000FuncCommon K env funcCode s =
     (let lc = context0 s in
      if funcCode = FcPrintNoSpace then
        Some (FcProcessed, lcUpdate (\<lambda>lc. lc\<lparr>extsuppress := True\<rparr>) s)
      else if funcCode = FcPrintAutoEject then Some (FcProcessed, s)
      else if funcCode = Fc6681MasterClear K then
        Some (FcProcessed,
              fputs (if extuseANSI lc then [CHR ''1''] else [FF])
                (lcUpdate (\<lambda>lc. lc\<lparr>extspaceopt := 1, extlpi := 6, extlpp := LpInchesPerPage * 6,
                                   extcurline := 1, extsuppress := False,
                                   extpostprint := True\<rparr>) s))
      else if funcCode = FcPrintRelease then
        (let s1 = lcUpdate (\<lambda>lc. lc\<lparr>flags := flags lc AND NOT (StPrintIntReady OR StPrintIntEnd)\<rparr>) s
         in if printed lc then
              (let s2 = hostcall Fflush s1;
                   s3 = lp3000RemovePaper K env
                          (2, uint (chId (channel s)), uint (eqNo s)) s2
               in Some (FcProcessed, lcUpdate (\<lambda>lc. lc\<lparr>printed := False\<rparr>) s3))
            else Some (FcProcessed, s1))
      else if funcCode = FcPrintSingle then
        (let s1 = lcUpdate (\<lambda>lc. lc\<lparr>extspaceopt := 1\<rparr>) s
         in if extuseANSI lc then
              (if \<not> extpostprint lc then
                 Some (FcProcessed,
                       lcUpdate (\<lambda>lc. lc\<lparr>extcurline := extcurline lc + 1\<rparr>)
                         (fputs [NL, CHR '' ''] s1))
               else Some (FcProcessed, s1))
            else Some (FcProcessed,
                       lcUpdate (\<lambda>lc. lc\<lparr>extcurline := extcurline lc + 1\<rparr>) (fputs [NL] s1)))
      else if funcCode = FcPrintLastLine then
        Some (FcProcessed,
              lcUpdate (\<lambda>lc. lc\<lparr>extcurline := extcurline lc + 1\<rparr>)
                (fputs (if extuseANSI lc then [NL, CHR '' ''] else [NL]) s))
      else if funcCode = FcPrintEject then
        Some (FcProcessed,
              fputs (if extuseANSI lc then [NL, CHR ''1''] else [FF])
                (lcUpdate (\<lambda>lc. lc\<lparr>extcurline := 1\<rparr>) s))
      else if funcCode = FcPrintDouble then
        (let s1 = lcUpdate (\<lambda>lc. lc\<lparr>extspaceopt := 2\<rparr>) s
         in if extuseANSI lc then
              (if \<not> extpostprint lc then
                 Some (FcProcessed,
                       lcUpdate (\<lambda>lc. lc\<lparr>extcurline := extcurline lc + 2\<rparr>)
                         (fputs [NL, CHR ''0''] s1))
               else Some (FcProcessed, s1))
            else Some (FcProcessed,
                       lcUpdate (\<lambda>lc. lc\<lparr>extcurline := extcurline lc + 2\<rparr>)
                         (fputs [NL, NL] s1)))
      else if funcCode = Fc6681Output K then
        (let fill = (flags lc AND Lp3555FillImageMem \<noteq> 0);
             fc = (if fill then funcCode + 1 else funcCode);
             s1 = (if fill then lcUpdate (\<lambda>lc. lc\<lparr>flags := flags lc AND NOT Lp3555FillImageMem\<rparr>) s
                   else s);
             s2 = lcUpdate (\<lambda>lc. lc\<lparr>flags := flags lc AND NOT (StPrintIntReady OR StPrintIntEnd)\<rparr>) s1;
             s3 = (if flags (context0 s2) AND Lp3000IntReadyEna \<noteq> 0
                   then lcUpdate (\<lambda>lc. lc\<lparr>flags := flags lc OR Lp3000IntReady\<rparr>) s2 else s2);
             s4 = (if flags (context0 s3) AND Lp3000IntEndEna \<noteq> 0
                   then lcUpdate (\<lambda>lc. lc\<lparr>flags := flags lc OR Lp3000IntEnd\<rparr>) s3 else s3);
             s5 = dcc6681Interrupt
                    (flags (context0 s4) AND (Lp3000IntReady OR Lp3000IntEnd) \<noteq> 0) s4
         in Some (FcAccepted, s5\<lparr>fcode := fc\<rparr>))
      else if funcCode = Fc6681DevStatusReq K then
        Some (FcAccepted, s\<lparr>fcode := funcCode\<rparr>)
      else None)"

text \<open>The \<^verbatim>\<open>switch\<close> of the 3555; the \<^verbatim>\<open>default\<close> label comes last here.\<close>

definition lp3000Func3555 :: "PpWord \<Rightarrow> Lp3000 \<Rightarrow> FcStatus \<times> Lp3000" where
  "lp3000Func3555 funcCode s =
     (if funcCode = Fc3555CondClearFormat then (FcProcessed, s)
      else if funcCode = Fc3555Sel8Lpi then
        (FcProcessed, lcUpdate (\<lambda>lc. lc\<lparr>extlpi := 8, extlpp := LpInchesPerPage * 8\<rparr>) s)
      else if funcCode = Fc3555Sel6Lpi then
        (FcProcessed, lcUpdate (\<lambda>lc. lc\<lparr>extlpi := 6, extlpp := LpInchesPerPage * 6\<rparr>) s)
      else if funcCode \<in> {Fc3555SelExtArray, Fc3555ClearExtArray, Fc3555SelIntError,
                           Fc3555RelIntError, Fc3555ReloadMemEnable} then (FcProcessed, s)
      else if funcCode = Fc3555ClearFormat then
        (FcProcessed,
         lcUpdate (\<lambda>lc. lc\<lparr>extspaceopt := 1, extlpi := 6, extlpp := LpInchesPerPage * 6,
                            extsuppress := False, extpostprint := True\<rparr>) s)
      else if Fc3555PostVFU1 \<le> funcCode \<and> funcCode \<le> Fc3555PostVFU12 then (FcProcessed, s)
      else if funcCode = Fc3555SelectPreprint then
        (FcProcessed, lcUpdate (\<lambda>lc. lc\<lparr>extpostprint := False\<rparr>) s)
      else if Fc3555PreVFU1 \<le> funcCode \<and> funcCode \<le> Fc3555ClearMaint then (FcProcessed, s)
      else if funcCode = Fc3555FillMemory then
        (FcProcessed, lcUpdate (\<lambda>lc. lc\<lparr>flags := flags lc OR Lp3555FillImageMem\<rparr>) s)
      else if funcCode = Fc3555SelIntReady then selInt Lp3000IntReady Lp3000IntReadyEna s
      else if funcCode = Fc3555RelIntReady then relInt Lp3000IntReady Lp3000IntReadyEna s
      else if funcCode = Fc3555SelIntEnd then selInt Lp3000IntEnd Lp3000IntEndEna s
      else if funcCode = Fc3555RelIntEnd then relInt Lp3000IntEnd Lp3000IntEndEna s
      else (FcProcessed, printf (UnknownLP3555 funcCode) s))"

text \<open>The \<^verbatim>\<open>switch\<close> of the 3152; the \<^verbatim>\<open>default\<close> label comes last here.\<close>

definition lp3000Func3152 :: "PpWord \<Rightarrow> Lp3000 \<Rightarrow> FcStatus \<times> Lp3000" where
  "lp3000Func3152 funcCode s =
     (if funcCode = Fc3152ClearFormat then
        (FcProcessed, lcUpdate (\<lambda>lc. lc\<lparr>extpostprint := True\<rparr>) s)
      else if Fc3152PostVFU1 \<le> funcCode \<and> funcCode \<le> Fc3152PostVFU6 then (FcProcessed, s)
      else if funcCode = Fc3152SelectPreprint then
        (FcProcessed, lcUpdate (\<lambda>lc. lc\<lparr>extpostprint := False\<rparr>) s)
      else if (Fc3152PreVFU1 \<le> funcCode \<and> funcCode \<le> Fc3152PreVFU6)
              \<or> funcCode \<in> {Fc3152SelIntError, Fc3152RelIntError, Fc3152Release2} then
        (FcProcessed, s)
      else if funcCode = Fc3152SelIntReady then selInt Lp3000IntReady Lp3000IntReadyEna s
      else if funcCode = Fc3152RelIntReady then relInt Lp3000IntReady Lp3000IntReadyEna s
      else if funcCode = Fc3152SelIntEnd then selInt Lp3000IntEnd Lp3000IntEndEna s
      else if funcCode = Fc3152RelIntEnd then relInt Lp3000IntEnd Lp3000IntEndEna s
      else (FcProcessed, printf (UnknownLP3152 funcCode) s))"

text \<open>
  \<^verbatim>\<open>lp3000Func\<close>. Every case of the two controller switches returns, so the two lines
  after them in the source are never reached.
\<close>

definition lp3000Func :: "Decls \<Rightarrow> HostEnv \<Rightarrow> PpWord \<Rightarrow> Lp3000 \<Rightarrow> FcStatus \<times> Lp3000" where
  "lp3000Func K env funcCode s =
     (if fcb s = None then
        (FcProcessed, printf (FcbIsNull ''lp3000Func'' (chId (channel s)) (eqNo s)) s)
      else case lp3000FuncCommon K env funcCode s of
             Some r \<Rightarrow> r
           | None \<Rightarrow>
               if flags (context0 s) AND Lp3000Type3555 \<noteq> 0 then lp3000Func3555 funcCode s
               else lp3000Func3152 funcCode s)"

definition lp3000Io :: "Decls \<Rightarrow> Lp3000 \<Rightarrow> Lp3000" where
  "lp3000Io K s =
     (let ch = channel s; lc = context0 s in
      if fcb s = None then printf (FcbIsNull ''lp3000Io'' (chId ch) (eqNo s)) s
      else if fcode s = Fc6681Output K then
        (if full ch then
           (lcUpdate (\<lambda>lc. lc\<lparr>printed := True, keepInt := True\<rparr>)
              (fputs (if flags lc AND Lp3000Type501 \<noteq> 0
                      then [bcdToAscii K (unat (drop_bit 6 (data ch) AND Mask6)),
                            bcdToAscii K (unat (data ch AND Mask6))]
                      else [char_of (unat (data ch AND 255))]) s))
             \<lparr>channel := ch\<lparr>full := False\<rparr>\<rparr>
         else s)
      else if fcode s = Fc6681Output K + 1 then s\<lparr>channel := ch\<lparr>full := False\<rparr>\<rparr>
      else if fcode s = Fc6681DevStatusReq K then
        s\<lparr>channel := ch\<lparr>data := ucast (StPrintReady OR
                                          (flags lc AND (StPrintIntReady OR StPrintIntEnd))),
                           full := True\<rparr>,
          fcode := 0\<rparr>
      else s\<lparr>channel := ch\<lparr>full := False\<rparr>\<rparr>)"

definition lp3000Disconnect :: "Decls \<Rightarrow> Lp3000 \<Rightarrow> Lp3000" where
  "lp3000Disconnect K s =
     (let lc = context0 s in
      if fcb s = None then
        printf (FcbIsNull ''lp3000Disconnect'' (chId (channel s)) (eqNo s)) s
      else if fcode s = Fc6681Output K then
        (let s1 =
           (if extsuppress lc then
              lcUpdate (\<lambda>lc. lc\<lparr>extsuppress := False\<rparr>)
                (fputs (if extuseANSI lc then [NL, CHR ''+''] else [CR]) s)
            else if extpostprint lc then
              lcUpdate (\<lambda>lc. lc\<lparr>extspaceopt := 1\<rparr>)
                (if extspaceopt lc = 2 then
                   lcUpdate (\<lambda>lc. lc\<lparr>extcurline := extcurline lc + 2\<rparr>)
                     (fputs (if extuseANSI lc then [NL, CHR ''0''] else [NL, NL]) s)
                 else
                   lcUpdate (\<lambda>lc. lc\<lparr>extcurline := extcurline lc + 1\<rparr>)
                     (fputs (if extuseANSI lc then [NL, CHR '' ''] else [NL]) s))
            else fputs [TAB] s)
         in s1\<lparr>fcode := 0\<rparr>)
      else s)"

text \<open>
  The states of one printer that a run can reach: from the initial state by function
  codes, I/O cycles and disconnects in any order and with any answers of the host, while
  the peripheral processor may change the channel between the calls.
\<close>

inductive lp3000Reach :: "Decls \<Rightarrow> Lp3000 \<Rightarrow> bool" for K :: Decls where
  reachInit: "flgs \<in> initFlags \<Longrightarrow> lp3000Reach K (lp3000Init ch eq flgs useANSI devicePath)"
| reachFunc: "lp3000Reach K s \<Longrightarrow> lp3000Reach K (snd (lp3000Func K env funcCode s))"
| reachIo: "lp3000Reach K s \<Longrightarrow> lp3000Reach K (lp3000Io K s)"
| reachDisconnect: "lp3000Reach K s \<Longrightarrow> lp3000Reach K (lp3000Disconnect K s)"
| reachChannel: "lp3000Reach K s \<Longrightarrow> lp3000Reach K (s\<lparr>channel := ch\<rparr>)"

text \<open>A run as a list of events, to evaluate reachable states.\<close>

datatype Lp3000Event =
    EvFunc HostEnv PpWord
  | EvIo
  | EvDisconnect
  | EvChannel Channel

fun lp3000Step :: "Decls \<Rightarrow> Lp3000 \<Rightarrow> Lp3000Event \<Rightarrow> Lp3000" where
  "lp3000Step K s (EvFunc env funcCode) = snd (lp3000Func K env funcCode s)"
| "lp3000Step K s EvIo = lp3000Io K s"
| "lp3000Step K s EvDisconnect = lp3000Disconnect K s"
| "lp3000Step K s (EvChannel ch) = s\<lparr>channel := ch\<rparr>"

definition lp3000Run :: "Decls \<Rightarrow> Lp3000 \<Rightarrow> Lp3000Event list \<Rightarrow> Lp3000" where
  "lp3000Run K s evs = foldl (lp3000Step K) s evs"

section \<open>The 6612 console (console.c)\<close>

abbreviation Fc6612Sel64CharLeft :: PpWord where "Fc6612Sel64CharLeft \<equiv> 3584"     \<comment> \<open>07000\<close>
abbreviation Fc6612Sel32CharLeft :: PpWord where "Fc6612Sel32CharLeft \<equiv> 3585"     \<comment> \<open>07001\<close>
abbreviation Fc6612Sel16CharLeft :: PpWord where "Fc6612Sel16CharLeft \<equiv> 3586"     \<comment> \<open>07002\<close>
abbreviation Fc6612Sel512DotsLeft :: PpWord where "Fc6612Sel512DotsLeft \<equiv> 3592"   \<comment> \<open>07010\<close>
abbreviation Fc6612Sel512DotsRight :: PpWord where "Fc6612Sel512DotsRight \<equiv> 3656" \<comment> \<open>07110\<close>
abbreviation Fc6612SelKeyIn :: PpWord where "Fc6612SelKeyIn \<equiv> 3600"               \<comment> \<open>07020\<close>
abbreviation Fc6612Sel64CharRight :: PpWord where "Fc6612Sel64CharRight \<equiv> 3648"   \<comment> \<open>07100\<close>
abbreviation Fc6612Sel32CharRight :: PpWord where "Fc6612Sel32CharRight \<equiv> 3649"   \<comment> \<open>07101\<close>
abbreviation Fc6612Sel16CharRight :: PpWord where "Fc6612Sel16CharRight \<equiv> 3650"   \<comment> \<open>07102\<close>

abbreviation KeyBufSize :: nat where "KeyBufSize \<equiv> 50"

text \<open>The calls into the window module, which is outside the sources.\<close>

datatype WinCall =
    WindowSetFont u8
  | WindowSetX u16
  | WindowSetY u16
  | WindowQueue char
  | WindowGetChar
  | WindowUpdate

text \<open>
  The file-scope variables of \<^verbatim>\<open>console.c\<close>, and \<^verbatim>\<open>ppKeyIn\<close> of the window module. The
  two configuration strings are C strings in zero-initialised arrays that are written
  once at start-up; a \<open>string\<close> here is the characters before the terminator. \<open>ts\<close>
  is only a scratch buffer and is a local value of the model. \<open>window\<close> collects the
  calls into the window module, oldest first.
\<close>

record ConsoleVars =
  currentFont :: u8
  currentOffset :: u16
  emptyDrop :: bool
  keyRing :: "u8 list"
  keyIn :: u32
  keyOut :: u32
  keyloops :: u64
  autoDate :: bool
  autoDateString :: string
  autoYearString :: string
  autoPos :: nat
  ppKeyIn :: PpWord
  window :: "WinCall list"

type_synonym Console = "ConsoleVars DevSlot"

text \<open>
  What the host supplies during one I/O cycle: the key \<^verbatim>\<open>windowGetChar\<close> leaves in
  \<^verbatim>\<open>ppKeyIn\<close>, and the local time.
\<close>

record ConsoleEnv =
  hostKey :: PpWord
  localtimeNow :: Tm

text \<open>The variables as the C start-up leaves them: statics are zero.\<close>

definition consoleVars0 :: ConsoleVars where
  "consoleVars0 =
     \<lparr>currentFont = 0, currentOffset = 0, emptyDrop = False,
      keyRing = replicate KeyBufSize 0, keyIn = 0, keyOut = 0, keyloops = 0,
      autoDate = False, autoDateString = [], autoYearString = [], autoPos = 0,
      ppKeyIn = 0, window = []\<rparr>"

text \<open>
  Reading a C string: the terminator at its end. Beyond it the model reads 0 as well,
  which is what the zero-initialised arrays hold.
\<close>

definition cAt :: "string \<Rightarrow> nat \<Rightarrow> char" where
  "cAt str i = (if i < length str then str ! i else CHR 0x00)"

definition cvUpdate :: "(ConsoleVars \<Rightarrow> ConsoleVars) \<Rightarrow> Console \<Rightarrow> Console" where
  "cvUpdate f s = s\<lparr>context0 := f (context0 s)\<rparr>"

definition windowCall :: "WinCall \<Rightarrow> ConsoleVars \<Rightarrow> ConsoleVars" where
  "windowCall c v = v\<lparr>window := window v @ [c]\<rparr>"

definition setFont :: "u8 \<Rightarrow> u16 \<Rightarrow> ConsoleVars \<Rightarrow> ConsoleVars" where
  "setFont font off v = windowCall (WindowSetFont font) (v\<lparr>currentFont := font, currentOffset := off\<rparr>)"

text \<open>\<^verbatim>\<open>consoleFunc\<close>; the \<^verbatim>\<open>default\<close> label comes last here.\<close>

definition consoleFunc :: "Decls \<Rightarrow> PpWord \<Rightarrow> Console \<Rightarrow> FcStatus \<times> Console" where
  "consoleFunc K funcCode s =
     (let s1 = s\<lparr>channel := (channel s)\<lparr>full := False\<rparr>\<rparr>;
          accept = (\<lambda>s'. (FcAccepted, s'\<lparr>fcode := funcCode\<rparr>))
      in if funcCode = Fc6612Sel512DotsLeft then
           accept (cvUpdate (setFont (FontDot K) (OffLeftScreen K)) s1)
         else if funcCode = Fc6612Sel512DotsRight then
           accept (cvUpdate (setFont (FontDot K) (OffRightScreen K)) s1)
         else if funcCode = Fc6612Sel64CharLeft then
           accept (cvUpdate (setFont (FontSmall K) (OffLeftScreen K)) s1)
         else if funcCode = Fc6612Sel32CharLeft then
           accept (cvUpdate (setFont (FontMedium K) (OffLeftScreen K)) s1)
         else if funcCode = Fc6612Sel16CharLeft then
           accept (cvUpdate (setFont (FontLarge K) (OffLeftScreen K)) s1)
         else if funcCode = Fc6612Sel64CharRight then
           accept (cvUpdate (setFont (FontSmall K) (OffRightScreen K)) s1)
         else if funcCode = Fc6612Sel32CharRight then
           accept (cvUpdate (setFont (FontMedium K) (OffRightScreen K)) s1)
         else if funcCode = Fc6612Sel16CharRight then
           accept (cvUpdate (setFont (FontLarge K) (OffRightScreen K)) s1)
         else if funcCode = Fc6612SelKeyIn then accept s1
         else (FcDeclined, s1))"

text \<open>
  \<^verbatim>\<open>consoleQueueKey\<close>. \<^verbatim>\<open>nextin\<close> is an \<^verbatim>\<open>int\<close> that is compared with the unsigned
  \<^verbatim>\<open>keyOut\<close>, so the comparison is one of 32-bit unsigned values. The indices stay
  below \<^verbatim>\<open>KeyBufSize\<close> (lemma \<open>keyRun_refines\<close>); an index outside the array would be
  undefined in C.
\<close>

definition consoleQueueKey :: "u8 \<Rightarrow> ConsoleVars \<Rightarrow> ConsoleVars" where
  "consoleQueueKey ch v =
     (let nextin0 = keyIn v + 1;
          nextin = (if nextin0 = of_nat KeyBufSize then 0 else nextin0)
      in if nextin \<noteq> keyOut v
         then v\<lparr>keyRing := (keyRing v)[unat (keyIn v) := ch], keyIn := nextin\<rparr>
         else v)"

text \<open>\<^verbatim>\<open>consoleGetKey\<close> with its counter \<^verbatim>\<open>keyloops\<close>: the key returned and the new state.\<close>

definition consoleGetKey :: "ConsoleVars \<Rightarrow> u8 \<times> ConsoleVars" where
  "consoleGetKey v =
     (if keyIn v = keyOut v then (0, v)
      else
        let v1 = v\<lparr>keyloops := keyloops v + 1\<rparr> in
        if keyloops v1 mod 3 \<noteq> 1 then (0, v1)
        else
          let nextout0 = keyOut v1 + 1;
              nextout = (if nextout0 = of_nat KeyBufSize then 0 else nextout0);
              key = keyRing v1 ! unat (keyOut v1)
          in (key, v1\<lparr>keyOut := nextout\<rparr>))"

text \<open>
  \<^verbatim>\<open>strftime(ts, sizeof(ts) - 1, "%y%m%d\n%H%M%S\n", localtime(&t))\<close>: six numbers of
  two digits each.
\<close>

definition digits2 :: "int \<Rightarrow> string" where
  "digits2 n = [''0123456789'' ! nat (n div 10 mod 10), ''0123456789'' ! nat (n mod 10)]"

definition strftime_ymdHMS :: "Tm \<Rightarrow> string" where
  "strftime_ymdHMS t =
     digits2 (tm_year t mod 100) @ digits2 (tm_mon t + 1) @ digits2 (tm_mday t) @ [NL] @
     digits2 (tm_hour t) @ digits2 (tm_min t) @ digits2 (tm_sec t) @ [NL]"

text \<open>
  The time stamp after its first two characters have been overwritten with the first
  two of \<^verbatim>\<open>autoYearString\<close>, up to the first zero byte, where the loop over \<^verbatim>\<open>ts\<close> ends.
\<close>

definition autoDateText :: "string \<Rightarrow> Tm \<Rightarrow> string" where
  "autoDateText year t =
     takeWhile (\<lambda>c. c \<noteq> CHR 0x00) (cAt year 0 # cAt year 1 # drop 2 (strftime_ymdHMS t))"

definition queueKeys :: "Decls \<Rightarrow> string \<Rightarrow> ConsoleVars \<Rightarrow> ConsoleVars" where
  "queueKeys K str v = foldl (\<lambda>v c. consoleQueueKey (asciiToConsole K (of_char c)) v) v str"

text \<open>The check for auto date entry in \<^verbatim>\<open>consoleIo\<close>, entered when \<^verbatim>\<open>autoDate\<close> is set.\<close>

definition autoDateCheck :: "Decls \<Rightarrow> ConsoleEnv \<Rightarrow> PpWord \<Rightarrow> PpWord \<Rightarrow> ConsoleVars \<Rightarrow> ConsoleVars" where
  "autoDateCheck K env fc d v =
     (let str = autoDateString v; pos = autoPos v in
      if (fc = Fc6612Sel32CharLeft \<or> fc = Fc6612Sel32CharRight)
         \<and> unat (drop_bit 6 d AND Mask6) = unat (asciiToCdc K (of_char (cAt str pos)))
         \<and> unat (d AND Mask6) = unat (asciiToCdc K (of_char (cAt str (pos + 1))))
      then
        if cAt str (pos + 1) = CHR 0x00 \<or> cAt str (pos + 2) = CHR 0x00 then
          (let v1 = v\<lparr>autoDate := False\<rparr> in
           if keyOut v1 = keyIn v1
           then queueKeys K (autoDateText (autoYearString v1) (localtimeNow env)) v1
           else v1)
        else v\<lparr>autoPos := pos + 2\<rparr>
      else v\<lparr>autoPos := 0\<rparr>)"

text \<open>
  \<^verbatim>\<open>consoleIo\<close>. The key returned by \<^verbatim>\<open>consoleGetKey\<close> is a \<^verbatim>\<open>char\<close>; it is widened as a
  signed value when it is stored in the channel word.
\<close>

definition consoleIo :: "Decls \<Rightarrow> ConsoleEnv \<Rightarrow> Console \<Rightarrow> Console" where
  "consoleIo K env s =
     (let ch = channel s; d = data ch; fc = fcode s; hi = drop_bit 6 d AND Mask6 in
      if fc \<in> {Fc6612Sel64CharLeft, Fc6612Sel32CharLeft, Fc6612Sel16CharLeft,
                Fc6612Sel64CharRight, Fc6612Sel32CharRight, Fc6612Sel16CharRight} then
        (if full ch then
           (let s1 = cvUpdate (\<lambda>v. v\<lparr>emptyDrop := False\<rparr>) s;
                s2 = (if hi \<ge> 48 then
                        (if hi \<ge> 56 then cvUpdate (windowCall (WindowSetY (d AND Mask9))) s1
                         else cvUpdate (\<lambda>v. windowCall (WindowSetX ((d AND Mask9) + currentOffset v)) v) s1)
                      else
                        cvUpdate (windowCall (WindowQueue (consoleToAscii K (unat (d AND Mask6)))))
                          (cvUpdate (windowCall (WindowQueue (consoleToAscii K (unat hi)))) s1));
                s3 = (if autoDate (context0 s2) then cvUpdate (autoDateCheck K env fc d) s2 else s2)
            in s3\<lparr>channel := ch\<lparr>full := False\<rparr>\<rparr>)
         else s)
      else if fc \<in> {Fc6612Sel512DotsLeft, Fc6612Sel512DotsRight} then
        (if full ch then
           (let s1 = cvUpdate (\<lambda>v. v\<lparr>emptyDrop := False\<rparr>) s;
                s2 = (if hi \<ge> 48 then
                        (if hi \<ge> 56 then
                           cvUpdate (windowCall (WindowQueue (CHR ''.'')))
                             (cvUpdate (windowCall (WindowSetY (d AND Mask9))) s1)
                         else cvUpdate (\<lambda>v. windowCall (WindowSetX ((d AND Mask9) + currentOffset v)) v) s1)
                      else s1)
            in s2\<lparr>channel := ch\<lparr>full := False\<rparr>\<rparr>)
         else s)
      else if fc = Fc6612SelKeyIn then
        (let s1 = cvUpdate (\<lambda>v. (windowCall WindowGetChar v)\<lparr>ppKeyIn := hostKey env\<rparr>) s;
             d1 = ucast (asciiToConsole K (unat (ppKeyIn (context0 s1)))) :: PpWord;
             (d2, v2) = (if d1 = 0
                         then (case consoleGetKey (context0 s1) of (key, v) \<Rightarrow> (scast key, v))
                         else (d1, context0 s1))
         in s1\<lparr>channel := ch\<lparr>data := d2, full := True, status := 0\<rparr>,
               fcode := 0, context0 := v2\<lparr>ppKeyIn := 0\<rparr>\<rparr>)
      else s)"

definition consoleActivate :: "Console \<Rightarrow> Console" where
  "consoleActivate s = cvUpdate (\<lambda>v. v\<lparr>emptyDrop := True\<rparr>) s"

definition consoleDisconnect :: "Console \<Rightarrow> Console" where
  "consoleDisconnect s =
     (if emptyDrop (context0 s)
      then cvUpdate (\<lambda>v. (windowCall WindowUpdate v)\<lparr>emptyDrop := False\<rparr>) s
      else s)"

subsection \<open>The keyboard ring\<close>

text \<open>Runs of the producer and the consumer on the ring.\<close>

datatype KeyOp = QueueKey u8 | GetKey

fun keyStep :: "ConsoleVars \<Rightarrow> KeyOp \<Rightarrow> ConsoleVars" where
  "keyStep v (QueueKey ch) = consoleQueueKey ch v"
| "keyStep v GetKey = snd (consoleGetKey v)"

definition keyRun :: "ConsoleVars \<Rightarrow> KeyOp list \<Rightarrow> ConsoleVars" where
  "keyRun v ops = foldl keyStep v ops"

text \<open>The keys in the ring, oldest first: from \<^verbatim>\<open>keyOut\<close> up to \<^verbatim>\<open>keyIn\<close>, wrapping.\<close>

definition ringCount :: "ConsoleVars \<Rightarrow> nat" where
  "ringCount v = (unat (keyIn v) + KeyBufSize - unat (keyOut v)) mod KeyBufSize"

definition ringKeys :: "ConsoleVars \<Rightarrow> u8 list" where
  "ringKeys v =
     map (\<lambda>i. keyRing v ! ((unat (keyOut v) + i) mod KeyBufSize)) [0..<ringCount v]"

text \<open>
  The keyboard queue in the words of the specification: a first-in first-out queue that
  holds at most 49 keys and drops the newest key when it is full; the consumer counts
  its calls on a non-empty queue and takes the oldest key when the count modulo 3 is 1.
  The state is the queue and the count.
\<close>

fun specKeyStep :: "u8 list \<times> u64 \<Rightarrow> KeyOp \<Rightarrow> u8 list \<times> u64" where
  "specKeyStep (q, n) (QueueKey ch) = (if length q < KeyBufSize - 1 then (q @ [ch], n) else (q, n))"
| "specKeyStep (q, n) GetKey =
     (if q = [] then (q, n) else if (n + 1) mod 3 = 1 then (tl q, n + 1) else (q, n + 1))"

definition specKeyRun :: "KeyOp list \<Rightarrow> u8 list \<times> u64" where
  "specKeyRun ops = foldl specKeyStep ([], 0) ops"

text \<open>The ring is well formed: 50 cells and both indices inside.\<close>

definition ringInv :: "ConsoleVars \<Rightarrow> bool" where
  "ringInv v \<longleftrightarrow>
     length (keyRing v) = KeyBufSize \<and> unat (keyIn v) < KeyBufSize \<and> unat (keyOut v) < KeyBufSize"

section \<open>Definitions used in the statements\<close>

text \<open>
  Sample values of the parameters, to evaluate the model at concrete inputs. The limits,
  the 6681 codes, the character tables and the font and offset constants are declared
  in files that are not among the sources. Scenario 1 of the specification gives the
  external BCD codes 0o30 and 0o31 for \<open>H\<close> and \<open>I\<close>; the other entries are
  stand-ins (letters at 1 to 26, digits of the console code at 27 to 36, new line at
  0o60). The general theorems hold for every value of the parameters.
\<close>

definition sampleTm :: Tm where
  "sampleTm = \<lparr>tm_year = 126, tm_mon = 10, tm_mday = 2, tm_hour = 23, tm_min = 14, tm_sec = 5\<rparr>"

definition sampleEnv :: HostEnv where
  "sampleEnv = \<lparr>findDevice = True, renameOk = (\<lambda>n. True), clock = (\<lambda>n. sampleTm), fopenOk = True\<rparr>"

definition sampleChannel :: Channel where
  "sampleChannel = \<lparr>data = 0, full = False, status = 0, chId = 0\<rparr>"

definition sampleDecls :: Decls where
  "sampleDecls =
     \<lparr>MaxChannels = 32, MaxEquipment = 8,
      Fc6681MasterClear = 960, Fc6681Output = 896, Fc6681DevStatusReq = 704,
      bcdToAscii = (\<lambda>i. if 1 \<le> i \<and> i \<le> 26 then ''ABCDEFGHIJKLMNOPQRSTUVWXYZ'' ! (i - 1)
                         else CHR '' ''),
      extBcdToAscii = (\<lambda>i. if i = 24 then CHR ''H'' else if i = 25 then CHR ''I'' else CHR '' ''),
      consoleToAscii = (\<lambda>i. if 1 \<le> i \<and> i \<le> 26 then ''ABCDEFGHIJKLMNOPQRSTUVWXYZ'' ! (i - 1)
                             else CHR '' ''),
      asciiToCdc = (\<lambda>i. if 65 \<le> i \<and> i \<le> 90 then of_nat (i - 64) else 45),
      asciiToConsole = (\<lambda>i. if 65 \<le> i \<and> i \<le> 90 then of_nat (i - 64)
                             else if 48 \<le> i \<and> i \<le> 57 then of_nat (i - 21)
                             else if i = 10 then 48 else 0),
      FontDot = 0, FontSmall = 1, FontMedium = 2, FontLarge = 3,
      OffLeftScreen = 0, OffRightScreen = 512\<rparr>"

text \<open>The three codes of the 6681 converter that the first \<^verbatim>\<open>switch\<close> of \<^verbatim>\<open>lp3000Func\<close> handles.\<close>

definition codes6681 :: "Decls \<Rightarrow> PpWord set" where
  "codes6681 K = {Fc6681MasterClear K, Fc6681Output K, Fc6681DevStatusReq K}"

text \<open>The controller test of \<^verbatim>\<open>lp3000Func\<close>.\<close>

definition is3555 :: "Lp3000 \<Rightarrow> bool" where
  "is3555 s \<longleftrightarrow> flags (context0 s) AND Lp3000Type3555 \<noteq> 0"

text \<open>
  The interrupt codes of a controller with the flag bits they act on: the latched bit,
  its enable bit, the select code and the release code.
\<close>

definition intCodes :: "bool \<Rightarrow> (32 word \<times> 32 word \<times> PpWord \<times> PpWord) set" where
  "intCodes c3555 =
     (if c3555
      then {(Lp3000IntReady, Lp3000IntReadyEna, Fc3555SelIntReady, Fc3555RelIntReady),
            (Lp3000IntEnd, Lp3000IntEndEna, Fc3555SelIntEnd, Fc3555RelIntEnd)}
      else {(Lp3000IntReady, Lp3000IntReadyEna, Fc3152SelIntReady, Fc3152RelIntReady),
            (Lp3000IntEnd, Lp3000IntEndEna, Fc3152SelIntEnd, Fc3152RelIntEnd)})"

text \<open>A latched interrupt bit is set only if its enable bit is set.\<close>

definition latchInv :: "32 word \<Rightarrow> bool" where
  "latchInv f \<longleftrightarrow>
     (f AND Lp3000IntReady \<noteq> 0 \<longrightarrow> f AND Lp3000IntReadyEna \<noteq> 0) \<and>
     (f AND Lp3000IntEnd \<noteq> 0 \<longrightarrow> f AND Lp3000IntEndEna \<noteq> 0)"


text \<open>
  The console slot as \<^verbatim>\<open>consoleInit\<close> leaves it, attached to a channel, with the variables
  of \<^verbatim>\<open>console.c\<close> at their start-up values. The console has no capture file.
\<close>

definition consoleInit :: "Channel \<Rightarrow> Console" where
  "consoleInit ch =
     \<lparr>channel = ch, eqNo = 0, fcode = 0, fcb = None, context0 = consoleVars0,
      intSummary = False, oplog = [], hostcalls = []\<rparr>"

text \<open>The case labels of \<^verbatim>\<open>consoleFunc\<close>.\<close>

definition consoleCodes :: "PpWord set" where
  "consoleCodes =
     {Fc6612Sel512DotsLeft, Fc6612Sel512DotsRight, Fc6612Sel64CharLeft, Fc6612Sel32CharLeft,
      Fc6612Sel16CharLeft, Fc6612Sel64CharRight, Fc6612Sel32CharRight, Fc6612Sel16CharRight,
      Fc6612SelKeyIn}"

text \<open>
  The two tests of the auto date check on a channel word \<open>d\<close>: the word matches the next
  two characters of the pattern, and the pattern ends with these two characters.
\<close>

definition autoDateMatch :: "Decls \<Rightarrow> PpWord \<Rightarrow> ConsoleVars \<Rightarrow> bool" where
  "autoDateMatch K d v \<longleftrightarrow>
     unat (drop_bit 6 d AND Mask6) = unat (asciiToCdc K (of_char (cAt (autoDateString v) (autoPos v)))) \<and>
     unat (d AND Mask6) = unat (asciiToCdc K (of_char (cAt (autoDateString v) (autoPos v + 1))))"

definition autoDateDone :: "ConsoleVars \<Rightarrow> bool" where
  "autoDateDone v \<longleftrightarrow>
     cAt (autoDateString v) (autoPos v + 1) = CHR 0x00 \<or>
     cAt (autoDateString v) (autoPos v + 2) = CHR 0x00"

definition sampleConsoleEnv :: ConsoleEnv where
  "sampleConsoleEnv = \<lparr>hostKey = 0, localtimeNow = sampleTm\<rparr>"

text \<open>
  A console for evaluating the auto date check: medium characters on the left screen
  are selected, the channel holds the word \<open>w\<close>, the pattern is \<open>ENTER DATE\<close> with the
  match position \<open>pos\<close>, and the year is \<open>70\<close>.
\<close>

definition autoDateSample :: "nat \<Rightarrow> PpWord \<Rightarrow> Console" where
  "autoDateSample pos w =
     (consoleInit sampleChannel)
       \<lparr>channel := sampleChannel\<lparr>data := w, full := True\<rparr>,
        fcode := Fc6612Sel32CharLeft,
        context0 := consoleVars0\<lparr>autoDate := True, autoDateString := ''ENTER DATE'',
                                autoYearString := ''70'', autoPos := pos\<rparr>\<rparr>"


text \<open>
  The events between the Output function code and the disconnect of one transaction: I/O
  cycles, and the peripheral processor putting words on the channel.
\<close>

fun isIoEvent :: "Lp3000Event \<Rightarrow> bool" where
  "isIoEvent EvIo = True"
| "isIoEvent (EvChannel ch) = True"
| "isIoEvent (EvFunc env funcCode) = False"
| "isIoEvent EvDisconnect = False"

text \<open>
  The line spacing of a space code in the two output modes: what the specification lists
  for Single and for Double.
\<close>

definition spacing :: "bool \<Rightarrow> PpWord \<Rightarrow> string" where
  "spacing ansi funcCode =
     (if funcCode = FcPrintSingle then (if ansi then [NL, CHR '' ''] else [NL])
      else (if ansi then [NL, CHR ''0''] else [NL, NL]))"

text \<open>The fields of the context that decide what a disconnect writes.\<close>

definition spacingFields :: "Lp3000 \<Rightarrow> u8 \<times> bool \<times> bool \<times> bool" where
  "spacingFields s =
     (extspaceopt (context0 s), extuseANSI (context0 s), extsuppress (context0 s),
      extpostprint (context0 s))"

text \<open>
  The time stamp in the words of the specification: two characters for the year, taken
  from the configured year, then month, day, a new line, hour, minute, second, a new
  line, every number as two decimal digits. \<open>validTm\<close> gives the ranges of the fields of
  \<^verbatim>\<open>struct tm\<close> that the stamp shows.
\<close>

definition decimalDigit :: "int \<Rightarrow> char" where
  "decimalDigit d =
     (if d = 0 then CHR ''0'' else if d = 1 then CHR ''1'' else if d = 2 then CHR ''2''
      else if d = 3 then CHR ''3'' else if d = 4 then CHR ''4'' else if d = 5 then CHR ''5''
      else if d = 6 then CHR ''6'' else if d = 7 then CHR ''7'' else if d = 8 then CHR ''8''
      else CHR ''9'')"

definition twoDigits :: "int \<Rightarrow> string" where
  "twoDigits n = [decimalDigit (n div 10), decimalDigit (n mod 10)]"

definition specTimeStamp :: "char \<Rightarrow> char \<Rightarrow> Tm \<Rightarrow> string" where
  "specTimeStamp y0 y1 t =
     [y0, y1] @ twoDigits (tm_mon t + 1) @ twoDigits (tm_mday t) @ [NL] @
     twoDigits (tm_hour t) @ twoDigits (tm_min t) @ twoDigits (tm_sec t) @ [NL]"

definition validTm :: "Tm \<Rightarrow> bool" where
  "validTm t \<longleftrightarrow>
     0 \<le> tm_mon t \<and> tm_mon t \<le> 11 \<and> 1 \<le> tm_mday t \<and> tm_mday t \<le> 31 \<and>
     0 \<le> tm_hour t \<and> tm_hour t \<le> 23 \<and> 0 \<le> tm_min t \<and> tm_min t \<le> 59 \<and>
     0 \<le> tm_sec t \<and> tm_sec t \<le> 60"

text \<open>The console of \<open>autoDateSample\<close> with another configured year.\<close>

definition autoDateSampleYear :: "string \<Rightarrow> nat \<Rightarrow> PpWord \<Rightarrow> Console" where
  "autoDateSampleYear year pos w =
     cvUpdate (\<lambda>v. v\<lparr>autoYearString := year\<rparr>) (autoDateSample pos w)"

definition sampleTm2 :: Tm where
  "sampleTm2 = \<lparr>tm_year = 99, tm_mon = 0, tm_mday = 31, tm_hour = 7, tm_min = 59, tm_sec = 40\<rparr>"

section \<open>The 1612 line printer: scenario 1\<close>

lemma scenario1612_file:
  "scenario1612 K ch w = Some [extBcdToAscii K (unat (w AND 63)), NL, NL]"
  by (simp add: scenario1612_def lp1612Init_def lp1612Func_def accept1612_def lp1612Io_def
      ppOutput_def fputs_def lp1612Disconnect_def Let_def)

text \<open>
  Claim C8, as the code has it: on a 1612 printer initialised in ASCII mode, the sequence
  \<^verbatim>\<open>FcPrintSelect\<close>, one I/O data word, \<^verbatim>\<open>FcPrintSingleSpace\<close>, disconnect leaves a capture
  file of exactly three bytes: the external BCD character of the low six bits of the
  word, then two new lines, one written by \<^verbatim>\<open>FcPrintSingleSpace\<close> and one by the
  disconnect. The high six bits of the word are not printed.
\<close>

theorem lp1612_scenario_capture_file:
  "scenario1612 K ch w = Some [extBcdToAscii K (unat (w AND 63)), NL, NL]"
  by (rule scenario1612_file)

text \<open>
  Claim C8 as stated fails: with the word 0o3031 (\<open>H\<close> and \<open>I\<close> combined) the file is
  not \<open>HI\<close> followed by a new line; it holds \<open>I\<close> and two new lines.
\<close>

theorem lp1612_scenario_not_HI:
  "scenario1612 sampleDecls sampleChannel 1561 \<noteq> Some [CHR ''H'', CHR ''I'', NL] \<and>
   scenario1612 sampleDecls sampleChannel 1561 = Some [CHR ''I'', NL, NL]"
  by (simp add: scenario1612_file sampleDecls_def)

section \<open>The 3000-series line printer\<close>

subsection \<open>Single and double space at function time\<close>

lemma lp3000Func_space:
  assumes "fcb s = Some f" and "Fc6681MasterClear K \<notin> {FcPrintSingle, FcPrintDouble}"
    and "funcCode \<in> {FcPrintSingle, FcPrintDouble}"
  shows "fst (lp3000Func K env funcCode s) = FcProcessed \<and>
         fcb (snd (lp3000Func K env funcCode s)) =
           Some (f @ (if extuseANSI (context0 s)
                      then (if extpostprint (context0 s) then []
                            else if funcCode = FcPrintSingle then [NL, CHR '' ''] else [NL, CHR ''0''])
                      else (if funcCode = FcPrintSingle then [NL] else [NL, NL])))"
  using assms
  by (auto simp add: lp3000Func_def lp3000FuncCommon_def Let_def fputs_def lcUpdate_def)


lemma func_space_fields:
  assumes "fcb s = Some f" and "Fc6681MasterClear K \<notin> {FcPrintSingle, FcPrintDouble}"
    and "funcCode \<in> {FcPrintSingle, FcPrintDouble}"
  shows "spacingFields (snd (lp3000Func K env funcCode s)) =
           ((if funcCode = FcPrintSingle then 1 else 2), extuseANSI (context0 s),
            extsuppress (context0 s), extpostprint (context0 s)) \<and>
         flags (context0 (snd (lp3000Func K env funcCode s))) = flags (context0 s) \<and>
         fcode (snd (lp3000Func K env funcCode s)) = fcode s"
proof -
  have mc: "Fc6681MasterClear K \<noteq> 1" "Fc6681MasterClear K \<noteq> 2" using assms(2) by simp_all
  from assms(3) have "funcCode = 1 \<or> funcCode = 2" by simp
  then show ?thesis
  proof
    assume "funcCode = 1"
    then show ?thesis using assms(1) mc
      by (simp add: lp3000Func_def lp3000FuncCommon_def Let_def fputs_def lcUpdate_def
          spacingFields_def)
  next
    assume "funcCode = 2"
    then show ?thesis using assms(1) mc
      by (simp add: lp3000Func_def lp3000FuncCommon_def Let_def fputs_def lcUpdate_def
          spacingFields_def)
  qed
qed


lemma func_output:
  assumes "fcb t = Some g" and "Fc6681Output K \<notin> {0, 1, 2, 3, 4, 5, 6, Fc6681MasterClear K}"
    and "flags (context0 t) AND Lp3555FillImageMem = 0"
  shows "fcode (snd (lp3000Func K env (Fc6681Output K) t)) = Fc6681Output K \<and>
         fcb (snd (lp3000Func K env (Fc6681Output K) t)) = Some g \<and>
         spacingFields (snd (lp3000Func K env (Fc6681Output K) t)) = spacingFields t"
proof -
  have n: "Fc6681Output K \<noteq> 0" "Fc6681Output K \<noteq> 1" "Fc6681Output K \<noteq> 2" "Fc6681Output K \<noteq> 3"
    "Fc6681Output K \<noteq> 4" "Fc6681Output K \<noteq> 5" "Fc6681Output K \<noteq> 6"
    "Fc6681Output K \<noteq> Fc6681MasterClear K"
    using assms(2) by simp_all
  show ?thesis using assms(1,3) n
    by (simp add: lp3000Func_def lp3000FuncCommon_def Let_def lcUpdate_def dcc6681Interrupt_def
        spacingFields_def)
qed

lemma io_keeps:
  assumes "fcode t = Fc6681Output K" and "fcb t = Some g"
  shows "fcode (lp3000Io K t) = Fc6681Output K \<and> fcb (lp3000Io K t) \<noteq> None \<and>
         spacingFields (lp3000Io K t) = spacingFields t"
  using assms
  by (simp add: lp3000Io_def Let_def lcUpdate_def fputs_def spacingFields_def)

lemma io_step_keeps:
  assumes "isIoEvent e" and "fcode t = Fc6681Output K" and "fcb t \<noteq> None"
  shows "fcode (lp3000Step K t e) = Fc6681Output K \<and> fcb (lp3000Step K t e) \<noteq> None \<and>
         spacingFields (lp3000Step K t e) = spacingFields t"
proof (cases e)
  case (EvFunc env c)
  then show ?thesis using assms(1) by simp
next
  case EvIo
  obtain g where "fcb t = Some g" using assms(3) by blast
  then show ?thesis using EvIo io_keeps [OF assms(2)] by simp
next
  case EvDisconnect
  then show ?thesis using assms(1) by simp
next
  case (EvChannel ch)
  then show ?thesis using assms(2,3) by (simp add: spacingFields_def)
qed

lemma io_run_keeps:
  "list_all isIoEvent evs \<Longrightarrow> fcode t = Fc6681Output K \<Longrightarrow> fcb t \<noteq> None \<Longrightarrow>
   fcode (foldl (lp3000Step K) t evs) = Fc6681Output K \<and>
   fcb (foldl (lp3000Step K) t evs) \<noteq> None \<and>
   spacingFields (foldl (lp3000Step K) t evs) = spacingFields t"
proof (induction evs arbitrary: t)
  case Nil
  then show ?case by simp
next
  case (Cons e evs)
  have e: "isIoEvent e" "list_all isIoEvent evs" using Cons.prems(1) by simp_all
  have s: "fcode (lp3000Step K t e) = Fc6681Output K" "fcb (lp3000Step K t e) \<noteq> None"
    "spacingFields (lp3000Step K t e) = spacingFields t"
    using io_step_keeps [OF e(1) Cons.prems(2) Cons.prems(3)] by simp_all
  show ?case using Cons.IH [OF e(2) s(1) s(2)] s(3) by simp
qed

lemma disconnect_spacing:
  assumes "fcode t = Fc6681Output K" and "fcb t = Some g"
    and "spacingFields t = ((if funcCode = FcPrintSingle then 1 else 2), ansi, False, post)"
  shows "fcb (lp3000Disconnect K t) =
           Some (g @ (if post then spacing ansi funcCode else [TAB]))"
proof (cases "funcCode = FcPrintSingle")
  case True
  then show ?thesis using assms
    by (simp add: lp3000Disconnect_def Let_def fputs_def lcUpdate_def spacingFields_def spacing_def)
next
  case False
  then show ?thesis using assms
    by (simp add: lp3000Disconnect_def Let_def fputs_def lcUpdate_def spacingFields_def spacing_def)
qed

lemma space_then_output_disconnect:
  assumes "fcb s = Some f" and "Fc6681MasterClear K \<notin> {FcPrintSingle, FcPrintDouble}"
    and "funcCode \<in> {FcPrintSingle, FcPrintDouble}"
    and "Fc6681Output K \<notin> {0, 1, 2, 3, 4, 5, 6, Fc6681MasterClear K}"
    and "flags (context0 s) AND Lp3555FillImageMem = 0"
    and "\<not> extsuppress (context0 s)"
    and "list_all isIoEvent evs"
  shows "(let s2 = lp3000Run K (snd (lp3000Func K env funcCode s))
                     (EvFunc env2 (Fc6681Output K) # evs)
          in fcb s2 \<noteq> None \<and>
             fcb (lp3000Disconnect K s2) =
               map_option (\<lambda>g. g @ (if extpostprint (context0 s)
                                      then spacing (extuseANSI (context0 s)) funcCode
                                      else [TAB])) (fcb s2))"
proof -
  let ?s1 = "snd (lp3000Func K env funcCode s)"
  let ?t = "snd (lp3000Func K env2 (Fc6681Output K) ?s1)"
  let ?s2 = "foldl (lp3000Step K) ?t evs"
  have f1: "spacingFields ?s1 =
              ((if funcCode = FcPrintSingle then 1 else 2), extuseANSI (context0 s),
               extsuppress (context0 s), extpostprint (context0 s))"
    "flags (context0 ?s1) = flags (context0 s)"
    using func_space_fields [OF assms(1,2,3), of env] by simp_all
  obtain g1 where g1: "fcb ?s1 = Some g1"
    using lp3000Func_space [OF assms(1,2,3), of env] by simp
  have fl: "flags (context0 ?s1) AND Lp3555FillImageMem = 0" using f1(2) assms(5) by simp
  have t: "fcode ?t = Fc6681Output K" "fcb ?t = Some g1" "spacingFields ?t = spacingFields ?s1"
    using func_output [OF g1 assms(4) fl, of env2] by simp_all
  have tn: "fcb ?t \<noteq> None" using t(2) by simp
  have r: "fcode ?s2 = Fc6681Output K" "fcb ?s2 \<noteq> None" "spacingFields ?s2 = spacingFields ?t"
    using io_run_keeps [OF assms(7) t(1) tn] by simp_all
  obtain g where g: "fcb ?s2 = Some g" using r(2) by blast
  have sf: "spacingFields ?s2 =
      ((if funcCode = FcPrintSingle then 1 else 2), extuseANSI (context0 s), False,
       extpostprint (context0 s))"
    using r(3) t(3) f1(1) assms(6) by simp
  have "fcb (lp3000Disconnect K ?s2) =
          Some (g @ (if extpostprint (context0 s) then spacing (extuseANSI (context0 s)) funcCode
                     else [TAB]))"
    using r(1) g sf by (rule disconnect_spacing)
  then show ?thesis using g by (simp add: lp3000Run_def Let_def)
qed


text \<open>
  Claim C1, as the code has it: on an open capture file the Single and Double space codes
  are processed at once and record the code in \<^verbatim>\<open>extspaceopt\<close>. In ANSI mode they write
  nothing when postprint is active and end the line (new line and blank for Single, new
  line and \<open>0\<close> for Double) when preprint is active. In ASCII mode they write the line
  end (one new line for Single, two for Double) at function time whether postprint is
  active or not. The spacing is deferred to the disconnect: when the next transaction is
  an Output (no fill of the image memory pending, no suppression) followed by any I/O
  cycles, its disconnect appends to the file, in postprint mode, the spacing of the
  recorded code in the mode of the printer, and in preprint mode a tab. (The master
  clear and output codes of the 6681 are parameters; as case labels they differ from the
  common printer codes and from each other.)
\<close>

theorem lp3000_space_codes_at_func_time:
  assumes "fcb s = Some f" and "Fc6681MasterClear K \<notin> {FcPrintSingle, FcPrintDouble}"
    and "funcCode \<in> {FcPrintSingle, FcPrintDouble}"
  shows "fst (lp3000Func K env funcCode s) = FcProcessed \<and>
         fcb (snd (lp3000Func K env funcCode s)) =
           Some (f @ (if extuseANSI (context0 s)
                      then (if extpostprint (context0 s) then []
                            else if funcCode = FcPrintSingle then [NL, CHR '' ''] else [NL, CHR ''0''])
                      else (if funcCode = FcPrintSingle then [NL] else [NL, NL]))) \<and>
         extspaceopt (context0 (snd (lp3000Func K env funcCode s))) =
           (if funcCode = FcPrintSingle then 1 else 2) \<and>
         (\<forall>env2 evs.
            Fc6681Output K \<notin> {0, 1, 2, 3, 4, 5, 6, Fc6681MasterClear K} \<longrightarrow>
            flags (context0 s) AND Lp3555FillImageMem = 0 \<longrightarrow>
            \<not> extsuppress (context0 s) \<longrightarrow>
            list_all isIoEvent evs \<longrightarrow>
            (let s2 = lp3000Run K (snd (lp3000Func K env funcCode s))
                        (EvFunc env2 (Fc6681Output K) # evs)
             in fcb s2 \<noteq> None \<and>
                fcb (lp3000Disconnect K s2) =
                  map_option (\<lambda>g. g @ (if extpostprint (context0 s)
                                         then spacing (extuseANSI (context0 s)) funcCode
                                         else [TAB])) (fcb s2)))"
proof (intro conjI allI impI)
  show "fst (lp3000Func K env funcCode s) = FcProcessed"
    using lp3000Func_space [OF assms, of env] by simp
  show "fcb (snd (lp3000Func K env funcCode s)) =
           Some (f @ (if extuseANSI (context0 s)
                      then (if extpostprint (context0 s) then []
                            else if funcCode = FcPrintSingle then [NL, CHR '' ''] else [NL, CHR ''0''])
                      else (if funcCode = FcPrintSingle then [NL] else [NL, NL])))"
    using lp3000Func_space [OF assms, of env] by simp
  show "extspaceopt (context0 (snd (lp3000Func K env funcCode s))) =
           (if funcCode = FcPrintSingle then 1 else 2)"
    using func_space_fields [OF assms, of env] by (simp add: spacingFields_def)
next
  fix env2 evs
  assume "Fc6681Output K \<notin> {0, 1, 2, 3, 4, 5, 6, Fc6681MasterClear K}"
    and "flags (context0 s) AND Lp3555FillImageMem = 0"
    and "\<not> extsuppress (context0 s)" and "list_all isIoEvent evs"
  with assms show "(let s2 = lp3000Run K (snd (lp3000Func K env funcCode s))
                        (EvFunc env2 (Fc6681Output K) # evs)
             in fcb s2 \<noteq> None \<and>
                fcb (lp3000Disconnect K s2) =
                  map_option (\<lambda>g. g @ (if extpostprint (context0 s)
                                         then spacing (extuseANSI (context0 s)) funcCode
                                         else [TAB])) (fcb s2))"
    by (rule space_then_output_disconnect)
qed


text \<open>
  Witness for C1: a fresh printer in ANSI mode (postprint) writes nothing on Single; a
  fresh printer in ASCII mode writes two new lines on Double; on a fresh ANSI printer
  Double, then Output with the word \<open>AB\<close>, then the disconnect leave \<open>AB\<close>, new line
  and \<open>0\<close> in the file.
\<close>

theorem lp3000_space_codes_at_func_time_witness:
  "fcb (snd (lp3000Func sampleDecls sampleEnv FcPrintSingle
               (lp3000Init sampleChannel 0 17 True None))) = Some [] \<and>
   fcb (snd (lp3000Func sampleDecls sampleEnv FcPrintDouble
               (lp3000Init sampleChannel 0 17 False None))) = Some [NL, NL] \<and>
   fcb (lp3000Disconnect sampleDecls
          (lp3000Run sampleDecls
             (snd (lp3000Func sampleDecls sampleEnv FcPrintDouble
                     (lp3000Init sampleChannel 0 17 True None)))
             [EvFunc sampleEnv 896,
              EvChannel \<lparr>data = 66, full = True, status = 0, chId = 0\<rparr>, EvIo]))
     = Some [CHR ''A'', CHR ''B'', NL, CHR ''0'']"
proof -
  let ?a = "lp3000Init sampleChannel 0 17 True None"
  let ?b = "lp3000Init sampleChannel 0 17 False None"
  let ?evs = "[EvChannel \<lparr>data = 66, full = True, status = 0, chId = 0\<rparr>, EvIo]"
  have mc: "Fc6681MasterClear sampleDecls \<notin> {FcPrintSingle, FcPrintDouble}"
    by (simp add: sampleDecls_def)
  have a: "fcb ?a = Some []" and b: "fcb ?b = Some []"
    by (simp_all add: lp3000Init_def)
  have k: "Fc6681Output sampleDecls = 896"
    "Fc6681Output sampleDecls \<notin> {0, 1, 2, 3, 4, 5, 6, Fc6681MasterClear sampleDecls}"
    by (simp_all add: sampleDecls_def)
  have h: "flags (context0 ?a) AND Lp3555FillImageMem = 0" "\<not> extsuppress (context0 ?a)"
    "extpostprint (context0 ?a)" "extuseANSI (context0 ?a)" "list_all isIoEvent ?evs"
    by (simp_all add: lp3000Init_def)
  have e: "fcb (lp3000Run sampleDecls (snd (lp3000Func sampleDecls sampleEnv FcPrintDouble ?a))
                  (EvFunc sampleEnv 896 # ?evs)) = Some [CHR ''A'', CHR ''B'']"
    by (simp add: lp3000Run_def lp3000Func_def lp3000FuncCommon_def lcUpdate_def
        dcc6681Interrupt_def fputs_def lp3000Io_def lp3000Init_def sampleDecls_def Let_def)
  have d0: "fcb (lp3000Disconnect sampleDecls
          (lp3000Run sampleDecls (snd (lp3000Func sampleDecls sampleEnv FcPrintDouble ?a))
             (EvFunc sampleEnv (Fc6681Output sampleDecls) # ?evs))) =
        map_option (\<lambda>g. g @ (if extpostprint (context0 ?a)
                               then spacing (extuseANSI (context0 ?a)) FcPrintDouble else [TAB]))
          (fcb (lp3000Run sampleDecls (snd (lp3000Func sampleDecls sampleEnv FcPrintDouble ?a))
             (EvFunc sampleEnv (Fc6681Output sampleDecls) # ?evs)))"
    using lp3000_space_codes_at_func_time [OF a mc, of FcPrintDouble sampleEnv] k(2) h(1,2,5)
    unfolding Let_def by blast
  have d: "fcb (lp3000Disconnect sampleDecls
          (lp3000Run sampleDecls (snd (lp3000Func sampleDecls sampleEnv FcPrintDouble ?a))
             (EvFunc sampleEnv 896 # ?evs))) = Some [CHR ''A'', CHR ''B'', NL, CHR ''0'']"
    using d0 h(3,4) unfolding k(1) e by (simp add: spacing_def)
  show ?thesis
    using lp3000_space_codes_at_func_time [OF a mc, of FcPrintSingle sampleEnv] lp3000_space_codes_at_func_time [OF b mc, of FcPrintDouble sampleEnv] d
    by (simp add: lp3000Init_def)
qed

text \<open>
  Claim C1 as stated fails in ASCII mode: a fresh printer has postprint active and an
  empty file, and Single writes a new line at function time.
\<close>

theorem lp3000_single_ascii_postprint_emits:
  "extpostprint (context0 (lp3000Init sampleChannel 0 17 False None)) \<and>
   \<not> extuseANSI (context0 (lp3000Init sampleChannel 0 17 False None)) \<and>
   fcb (lp3000Init sampleChannel 0 17 False None) = Some [] \<and>
   fcb (snd (lp3000Func sampleDecls sampleEnv FcPrintSingle
               (lp3000Init sampleChannel 0 17 False None))) = Some [NL]"
  by (simp add: lp3000Func_def lp3000FuncCommon_def Let_def fputs_def lcUpdate_def
      lp3000Init_def sampleDecls_def)

subsection \<open>Disconnect\<close>

text \<open>
  Claim C2: on an open capture file, a disconnect whose latched code is not Output
  changes nothing. When the latched code is Output: if the suppress flag is set it
  writes a carriage return (ASCII) or new line and \<open>+\<close> (ANSI) and clears the flag;
  otherwise in postprint mode it writes the spacing of \<^verbatim>\<open>extspaceopt\<close> (Double: two new
  lines, or new line and \<open>0\<close>; otherwise one new line, or new line and blank) and sets
  \<^verbatim>\<open>extspaceopt\<close> to Single; otherwise it writes one tab.
\<close>

theorem lp3000_disconnect_output_spacing:
  assumes "fcb s = Some f"
  shows "(fcode s \<noteq> Fc6681Output K \<longrightarrow> lp3000Disconnect K s = s) \<and>
   (fcode s = Fc6681Output K \<longrightarrow> extsuppress (context0 s) \<longrightarrow>
      fcb (lp3000Disconnect K s) =
        Some (f @ (if extuseANSI (context0 s) then [NL, CHR ''+''] else [CR])) \<and>
      \<not> extsuppress (context0 (lp3000Disconnect K s))) \<and>
   (fcode s = Fc6681Output K \<longrightarrow> \<not> extsuppress (context0 s) \<longrightarrow> extpostprint (context0 s) \<longrightarrow>
      fcb (lp3000Disconnect K s) =
        Some (f @ (if extspaceopt (context0 s) = 2
                   then (if extuseANSI (context0 s) then [NL, CHR ''0''] else [NL, NL])
                   else (if extuseANSI (context0 s) then [NL, CHR '' ''] else [NL]))) \<and>
      extspaceopt (context0 (lp3000Disconnect K s)) = 1) \<and>
   (fcode s = Fc6681Output K \<longrightarrow> \<not> extsuppress (context0 s) \<longrightarrow> \<not> extpostprint (context0 s) \<longrightarrow>
      fcb (lp3000Disconnect K s) = Some (f @ [TAB]))"
  using assms
  by (simp add: lp3000Disconnect_def Let_def fputs_def lcUpdate_def)

text \<open>
  Witness for C2: a fresh ANSI printer with Output latched writes new line and blank;
  with Double selected it writes new line and \<open>0\<close>; with no code latched the
  disconnect changes nothing.
\<close>

theorem lp3000_disconnect_output_spacing_witness:
  "fcb (lp3000Disconnect sampleDecls ((lp3000Init sampleChannel 0 17 True None)\<lparr>fcode := 896\<rparr>))
     = Some [NL, CHR '' ''] \<and>
   lp3000Disconnect sampleDecls (lp3000Init sampleChannel 0 17 True None)
     = lp3000Init sampleChannel 0 17 True None"
proof -
  let ?s = "lp3000Init sampleChannel 0 17 True None"
  have a: "fcb (?s\<lparr>fcode := 896\<rparr>) = Some []" and b: "fcb ?s = Some []"
    by (simp_all add: lp3000Init_def)
  show ?thesis
    using lp3000_disconnect_output_spacing [OF a, of sampleDecls]
      lp3000_disconnect_output_spacing [OF b, of sampleDecls]
    by (simp add: lp3000Init_def sampleDecls_def)
qed

subsection \<open>Interrupt flags\<close>

lemma and128: "(f :: 32 word) AND 128 \<noteq> 0 \<longleftrightarrow> bit f 7"
  using and_exp_eq_0_iff_not_bit [of f 7] by simp

lemma and256: "(f :: 32 word) AND 256 \<noteq> 0 \<longleftrightarrow> bit f 8"
  using and_exp_eq_0_iff_not_bit [of f 8] by simp

lemma and1024: "(f :: 32 word) AND 1024 \<noteq> 0 \<longleftrightarrow> bit f 10"
  using and_exp_eq_0_iff_not_bit [of f 10] by simp

lemma and2048: "(f :: 32 word) AND 2048 \<noteq> 0 \<longleftrightarrow> bit f 11"
  using and_exp_eq_0_iff_not_bit [of f 11] by simp

lemma and128_0: "(f :: 32 word) AND 128 = 0 \<longleftrightarrow> \<not> bit f 7"
  using and128 by blast

lemma and256_0: "(f :: 32 word) AND 256 = 0 \<longleftrightarrow> \<not> bit f 8"
  using and256 by blast

lemma and1024_0: "(f :: 32 word) AND 1024 = 0 \<longleftrightarrow> \<not> bit f 10"
  using and1024 by blast

lemma and2048_0: "(f :: 32 word) AND 2048 = 0 \<longleftrightarrow> \<not> bit f 11"
  using and2048 by blast

lemma and384: "(f :: 32 word) AND 384 \<noteq> 0 \<longleftrightarrow> bit f 7 \<or> bit f 8"
proof -
  have "(384 :: 32 word) = 128 OR 256" by simp
  then have "f AND 384 = (f AND 128) OR (f AND 256)"
    by (simp only: bit.conj_disj_distrib)
  then show ?thesis by (simp add: or_eq_0_iff and128_0 and256_0)
qed

lemmas and_bits = and128_0 and256_0 and1024_0 and2048_0 and384

lemma latchInv_bit: "latchInv f \<longleftrightarrow> (bit f 7 \<longrightarrow> bit f 10) \<and> (bit f 8 \<longrightarrow> bit f 11)"
  unfolding latchInv_def and128 and256 and1024 and2048 by simp

lemma lp3000FuncCommon_None:
  "funcCode \<notin> codes6681 K \<Longrightarrow> funcCode \<notin> {0, 1, 2, 3, 4, 5, 6} \<Longrightarrow>
   lp3000FuncCommon K env funcCode s = None"
  by (simp add: lp3000FuncCommon_def codes6681_def Let_def)

lemma select_release_3555:
  assumes "fcb s = Some f" and "is3555 s"
    and "lp3000FuncCommon K env sel s = None" and "lp3000FuncCommon K env rel s = None"
    and "(latch, ena, sel, rel) = (128, 1024, 16, 17) \<or> (latch, ena, sel, rel) = (256, 2048, 18, 19)"
  shows "(case lp3000Func K env sel s of (r, s') \<Rightarrow>
            r = FcProcessed \<and>
            flags (context0 s') AND ena \<noteq> 0 \<and>
            (flags (context0 s') AND latch \<noteq> 0 \<longleftrightarrow> keepInt (context0 s)) \<and>
            \<not> keepInt (context0 s') \<and>
            intSummary s' = (flags (context0 s') AND (Lp3000IntReady OR Lp3000IntEnd) \<noteq> 0)) \<and>
         (case lp3000Func K env rel s of (r, s') \<Rightarrow>
            r = FcProcessed \<and>
            flags (context0 s') AND ena = 0 \<and>
            flags (context0 s') AND latch = 0 \<and>
            keepInt (context0 s') = keepInt (context0 s) \<and>
            intSummary s' = (flags (context0 s') AND (Lp3000IntReady OR Lp3000IntEnd) \<noteq> 0))"
  using assms(5)
proof
  assume "(latch, ena, sel, rel) = (128, 1024, 16, 17)"
  with assms(1-4) show ?thesis
    by (simp add: lp3000Func_def is3555_def lp3000Func3555_def selInt_def relInt_def
        lcUpdate_def dcc6681Interrupt_def Let_def and_bits bit_simps)
next
  assume "(latch, ena, sel, rel) = (256, 2048, 18, 19)"
  with assms(1-4) show ?thesis
    by (simp add: lp3000Func_def is3555_def lp3000Func3555_def selInt_def relInt_def
        lcUpdate_def dcc6681Interrupt_def Let_def and_bits bit_simps)
qed

lemma select_release_3152:
  assumes "fcb s = Some f" and "\<not> is3555 s"
    and "lp3000FuncCommon K env sel s = None" and "lp3000FuncCommon K env rel s = None"
    and "(latch, ena, sel, rel) = (128, 1024, 24, 25) \<or> (latch, ena, sel, rel) = (256, 2048, 26, 27)"
  shows "(case lp3000Func K env sel s of (r, s') \<Rightarrow>
            r = FcProcessed \<and>
            flags (context0 s') AND ena \<noteq> 0 \<and>
            (flags (context0 s') AND latch \<noteq> 0 \<longleftrightarrow> keepInt (context0 s)) \<and>
            \<not> keepInt (context0 s') \<and>
            intSummary s' = (flags (context0 s') AND (Lp3000IntReady OR Lp3000IntEnd) \<noteq> 0)) \<and>
         (case lp3000Func K env rel s of (r, s') \<Rightarrow>
            r = FcProcessed \<and>
            flags (context0 s') AND ena = 0 \<and>
            flags (context0 s') AND latch = 0 \<and>
            keepInt (context0 s') = keepInt (context0 s) \<and>
            intSummary s' = (flags (context0 s') AND (Lp3000IntReady OR Lp3000IntEnd) \<noteq> 0))"
  using assms(5)
proof
  assume "(latch, ena, sel, rel) = (128, 1024, 24, 25)"
  with assms(1-4) show ?thesis
    by (simp add: lp3000Func_def is3555_def lp3000Func3152_def selInt_def relInt_def
        lcUpdate_def dcc6681Interrupt_def Let_def and_bits bit_simps)
next
  assume "(latch, ena, sel, rel) = (256, 2048, 26, 27)"
  with assms(1-4) show ?thesis
    by (simp add: lp3000Func_def is3555_def lp3000Func3152_def selInt_def relInt_def
        lcUpdate_def dcc6681Interrupt_def Let_def and_bits bit_simps)
qed

text \<open>
  Claim C4, as the code has it: on an open capture file and on either controller, the
  codes that select the ready or the end interrupt set the enable bit; if \<^verbatim>\<open>keepInt\<close> is
  true they set the latched bit (whatever it was before) and clear \<^verbatim>\<open>keepInt\<close>,
  otherwise they clear the latched bit. The codes that release the interrupt clear the
  enable bit and the latched bit. All four recompute the interrupt summary from the new
  flags and return Processed. (The select and release codes are told apart from the
  three 6681 codes, which are parameters and are tested first.)
\<close>

theorem lp3000_interrupt_select_release:
  assumes "fcb s = Some f" and "(latch, ena, sel, rel) \<in> intCodes (is3555 s)"
    and "sel \<notin> codes6681 K" and "rel \<notin> codes6681 K"
  shows "(case lp3000Func K env sel s of (r, s') \<Rightarrow>
            r = FcProcessed \<and>
            flags (context0 s') AND ena \<noteq> 0 \<and>
            (flags (context0 s') AND latch \<noteq> 0 \<longleftrightarrow> keepInt (context0 s)) \<and>
            \<not> keepInt (context0 s') \<and>
            intSummary s' = (flags (context0 s') AND (Lp3000IntReady OR Lp3000IntEnd) \<noteq> 0)) \<and>
         (case lp3000Func K env rel s of (r, s') \<Rightarrow>
            r = FcProcessed \<and>
            flags (context0 s') AND ena = 0 \<and>
            flags (context0 s') AND latch = 0 \<and>
            keepInt (context0 s') = keepInt (context0 s) \<and>
            intSummary s' = (flags (context0 s') AND (Lp3000IntReady OR Lp3000IntEnd) \<noteq> 0))"
proof (cases "is3555 s")
  case True
  with assms(2) have codes:
    "(latch, ena, sel, rel) = (128, 1024, 16, 17) \<or> (latch, ena, sel, rel) = (256, 2048, 18, 19)"
    by (simp add: intCodes_def)
  with assms(3,4) have n: "lp3000FuncCommon K env sel s = None" "lp3000FuncCommon K env rel s = None"
    by (auto simp add: lp3000FuncCommon_None)
  show ?thesis by (rule select_release_3555 [OF assms(1) True n codes])
next
  case False
  with assms(2) have codes:
    "(latch, ena, sel, rel) = (128, 1024, 24, 25) \<or> (latch, ena, sel, rel) = (256, 2048, 26, 27)"
    by (simp add: intCodes_def)
  with assms(3,4) have n: "lp3000FuncCommon K env sel s = None" "lp3000FuncCommon K env rel s = None"
    by (auto simp add: lp3000FuncCommon_None)
  show ?thesis by (rule select_release_3152 [OF assms(1) False n codes])
qed

text \<open>
  Witness for C4: on a fresh 501 printer on a 3555, where \<^verbatim>\<open>keepInt\<close> is false, selecting
  the ready interrupt sets the enable bit and leaves the latched bit clear.
\<close>

theorem lp3000_interrupt_select_release_witness:
  "fst (lp3000Func sampleDecls sampleEnv Fc3555SelIntReady
          (lp3000Init sampleChannel 0 17 False None)) = FcProcessed \<and>
   flags (context0 (snd (lp3000Func sampleDecls sampleEnv Fc3555SelIntReady
          (lp3000Init sampleChannel 0 17 False None)))) AND Lp3000IntReadyEna \<noteq> 0 \<and>
   flags (context0 (snd (lp3000Func sampleDecls sampleEnv Fc3555SelIntReady
          (lp3000Init sampleChannel 0 17 False None)))) AND Lp3000IntReady = 0"
proof -
  let ?s = "lp3000Init sampleChannel 0 17 False None"
  have a: "fcb ?s = Some []" by (simp add: lp3000Init_def)
  have b: "(Lp3000IntReady, Lp3000IntReadyEna, Fc3555SelIntReady, Fc3555RelIntReady)
             \<in> intCodes (is3555 ?s)"
    by (simp add: intCodes_def is3555_def lp3000Init_def)
  have c: "Fc3555SelIntReady \<notin> codes6681 sampleDecls" "Fc3555RelIntReady \<notin> codes6681 sampleDecls"
    by (simp_all add: codes6681_def sampleDecls_def)
  have k: "\<not> keepInt (context0 ?s)" by (simp add: lp3000Init_def)
  show ?thesis
    using lp3000_interrupt_select_release [OF a b c, of sampleEnv] k
    by (simp add: split_beta)
qed

lemmas lp3000_eval = lp3000Run_def lp3000Func_def lp3000FuncCommon_def lp3000Func3555_def
  lp3000Func3152_def selInt_def relInt_def lcUpdate_def dcc6681Interrupt_def fputs_def
  lp3000Io_def lp3000Disconnect_def lp3000Init_def sampleDecls_def sampleChannel_def Let_def

text \<open>
  Claim C4 as stated fails where it says that the latched bit is left as it is: after an
  Output with the interrupts disabled and one printed word, \<^verbatim>\<open>keepInt\<close> is true and the
  ready bit is clear; selecting the ready interrupt then sets the ready bit.
\<close>

theorem lp3000_select_sets_latched_bit:
  "(let s = lp3000Run sampleDecls (lp3000Init sampleChannel 0 17 False None)
              [EvFunc sampleEnv 896,
               EvChannel \<lparr>data = 1561, full = True, status = 0, chId = 0\<rparr>,
               EvIo, EvDisconnect];
        s' = snd (lp3000Func sampleDecls sampleEnv Fc3555SelIntReady s)
    in keepInt (context0 s) \<and> flags (context0 s) AND Lp3000IntReady = 0 \<and>
       flags (context0 s') AND Lp3000IntReady \<noteq> 0)"
  by (simp add: lp3000_eval)

subsection \<open>The latched bits on reachable states\<close>

lemma renameLoop_context0:
  "context0 (fst (renameLoop env mk fname n i lst s)) = context0 s"
  by (induction n arbitrary: i lst s) (simp_all add: Let_def hostcall_def printf_def)

lemma renameLoop_context0_pair:
  "renameLoop env mk fname n i lst s = (s', new) \<Longrightarrow> context0 s' = context0 s"
  using renameLoop_context0 [of env mk fname n i lst s] by simp

lemma lp3000RemovePaper_context0: "context0 (lp3000RemovePaper K env p s) = context0 s"
  by (auto simp add: lp3000RemovePaper_def Let_def printf_def hostcall_def
      split: prod.splits option.splits dest!: renameLoop_context0_pair)

lemma latchInv_common:
  assumes "lp3000FuncCommon K env c s = Some (r, s')" and "latchInv (flags (context0 s))"
  shows "latchInv (flags (context0 s'))"
  using assms
  by (auto simp add: lp3000FuncCommon_def Let_def lcUpdate_def fputs_def hostcall_def
      dcc6681Interrupt_def lp3000RemovePaper_context0 latchInv_bit and1024 and2048 bit_simps
      split: if_splits)

lemma latchInv_3555:
  "latchInv (flags (context0 s)) \<Longrightarrow> latchInv (flags (context0 (snd (lp3000Func3555 c s))))"
  by (simp add: lp3000Func3555_def lcUpdate_def selInt_def relInt_def printf_def
      dcc6681Interrupt_def Let_def latchInv_bit bit_simps)

lemma latchInv_3152:
  "latchInv (flags (context0 s)) \<Longrightarrow> latchInv (flags (context0 (snd (lp3000Func3152 c s))))"
  by (simp add: lp3000Func3152_def lcUpdate_def selInt_def relInt_def printf_def
      dcc6681Interrupt_def Let_def latchInv_bit bit_simps)

lemma latchInv_func:
  assumes "latchInv (flags (context0 s))"
  shows "latchInv (flags (context0 (snd (lp3000Func K env c s))))"
proof (cases "lp3000FuncCommon K env c s")
  case None
  then show ?thesis using assms
    by (simp add: lp3000Func_def latchInv_3555 latchInv_3152 printf_def)
next
  case (Some a)
  then obtain r s' where "lp3000FuncCommon K env c s = Some (r, s')" by (cases a) simp
  then show ?thesis using assms latchInv_common [of K env c s r s']
    by (simp add: lp3000Func_def printf_def)
qed

lemma lp3000Io_flags: "flags (context0 (lp3000Io K s)) = flags (context0 s)"
  by (simp add: lp3000Io_def Let_def printf_def lcUpdate_def fputs_def)

lemma lp3000Disconnect_flags: "flags (context0 (lp3000Disconnect K s)) = flags (context0 s)"
  by (simp add: lp3000Disconnect_def Let_def printf_def lcUpdate_def fputs_def)

lemma latchInv_reach: "lp3000Reach K s \<Longrightarrow> latchInv (flags (context0 s))"
proof (induction rule: lp3000Reach.induct)
  case (reachInit flgs ch eq useANSI devicePath)
  then show ?case
    by (auto simp add: lp3000Init_def initFlags_def latchInv_def)
next
  case (reachFunc s env funcCode)
  then show ?case by (simp add: latchInv_func)
next
  case (reachIo s)
  then show ?case by (simp add: lp3000Io_flags)
next
  case (reachDisconnect s)
  then show ?case by (simp add: lp3000Disconnect_flags)
next
  case (reachChannel s ch)
  then show ?case by simp
qed

lemma lp3000Reach_run: "lp3000Reach K s \<Longrightarrow> lp3000Reach K (lp3000Run K s evs)"
proof (induction evs arbitrary: s)
  case Nil
  then show ?case by (simp add: lp3000Run_def)
next
  case (Cons ev evs)
  have "lp3000Reach K (lp3000Step K s ev)"
    using Cons.prems by (cases ev) (auto intro: lp3000Reach.intros)
  then show ?case using Cons.IH by (simp add: lp3000Run_def)
qed

lemma status_word_128:
  "(ucast (1 OR ((f :: 32 word) AND 384)) :: 16 word) AND 128 \<noteq> 0 \<longleftrightarrow> f AND 128 \<noteq> 0"
  using and_exp_eq_0_iff_not_bit [of "ucast (1 OR (f AND 384)) :: 16 word" 7]
  by (simp add: bit_simps and128)

lemma status_word_256:
  "(ucast (1 OR ((f :: 32 word) AND 384)) :: 16 word) AND 256 \<noteq> 0 \<longleftrightarrow> f AND 256 \<noteq> 0"
  using and_exp_eq_0_iff_not_bit [of "ucast (1 OR (f AND 384)) :: 16 word" 8]
  by (simp add: bit_simps and256)

lemma lp3000Io_status:
  assumes "fcb s = Some f" and "fcode s = Fc6681DevStatusReq K"
    and "Fc6681DevStatusReq K \<notin> {Fc6681Output K, Fc6681Output K + 1}"
  shows "data (channel (lp3000Io K s)) =
           ucast (StPrintReady OR (flags (context0 s) AND (StPrintIntReady OR StPrintIntEnd)))"
  using assms by (simp add: lp3000Io_def Let_def)

text \<open>
  Claim C3: in every state of a 3000-series printer reached from its initial state by
  function codes, I/O cycles and disconnects (with any host answers and any channel
  contents), a latched interrupt bit is set only if its enable bit is set. So when the
  status request is answered (the file is open and the latched code is the status
  request, which as a case label differs from Output and Output + 1), the word put on
  the channel is the ready bit with the two latched bits, and it shows a latched bit
  only if the enable bit of that interrupt is set.
\<close>

theorem lp3000_latched_only_while_enabled:
  assumes "lp3000Reach K s"
  shows "latchInv (flags (context0 s)) \<and>
         (\<forall>f. fcb s = Some f \<longrightarrow> fcode s = Fc6681DevStatusReq K \<longrightarrow>
               Fc6681DevStatusReq K \<notin> {Fc6681Output K, Fc6681Output K + 1} \<longrightarrow>
               data (channel (lp3000Io K s)) =
                 ucast (StPrintReady OR (flags (context0 s) AND (StPrintIntReady OR StPrintIntEnd))) \<and>
               (data (channel (lp3000Io K s)) AND 128 \<noteq> 0 \<longrightarrow>
                  flags (context0 s) AND Lp3000IntReadyEna \<noteq> 0) \<and>
               (data (channel (lp3000Io K s)) AND 256 \<noteq> 0 \<longrightarrow>
                  flags (context0 s) AND Lp3000IntEndEna \<noteq> 0))"
proof -
  have inv: "latchInv (flags (context0 s))" using assms by (rule latchInv_reach)
  show ?thesis
  proof (intro conjI allI impI)
    show "latchInv (flags (context0 s))" by (rule inv)
  next
    fix f
    assume h: "fcb s = Some f" "fcode s = Fc6681DevStatusReq K"
      "Fc6681DevStatusReq K \<notin> {Fc6681Output K, Fc6681Output K + 1}"
    then show "data (channel (lp3000Io K s)) =
        ucast (StPrintReady OR (flags (context0 s) AND (StPrintIntReady OR StPrintIntEnd)))"
      by (rule lp3000Io_status)
    then have d: "data (channel (lp3000Io K s)) = ucast (1 OR (flags (context0 s) AND 384))"
      by simp
    {
      assume "data (channel (lp3000Io K s)) AND 128 \<noteq> 0"
      then have "flags (context0 s) AND 128 \<noteq> 0" using status_word_128 by (simp add: d)
      then show "flags (context0 s) AND Lp3000IntReadyEna \<noteq> 0"
        using inv by (simp add: latchInv_def)
    }
    {
      assume "data (channel (lp3000Io K s)) AND 256 \<noteq> 0"
      then have "flags (context0 s) AND 256 \<noteq> 0" using status_word_256 by (simp add: d)
      then show "flags (context0 s) AND Lp3000IntEndEna \<noteq> 0"
        using inv by (simp add: latchInv_def)
    }
  qed
qed

text \<open>
  Witness for C3: select the ready interrupt, start an Output, disconnect and request
  the status. The state is reachable, the ready bit is latched with its enable bit, and
  the status word is 0o201.
\<close>

theorem lp3000_latched_only_while_enabled_witness:
  "(let s = lp3000Run sampleDecls (lp3000Init sampleChannel 0 17 False None)
              [EvFunc sampleEnv Fc3555SelIntReady, EvFunc sampleEnv 896, EvDisconnect,
               EvFunc sampleEnv 704]
    in lp3000Reach sampleDecls s \<and> latchInv (flags (context0 s)) \<and>
       flags (context0 s) AND Lp3000IntReady \<noteq> 0 \<and>
       data (channel (lp3000Io sampleDecls s)) = 129)"
proof -
  let ?s = "lp3000Run sampleDecls (lp3000Init sampleChannel 0 17 False None)
              [EvFunc sampleEnv Fc3555SelIntReady, EvFunc sampleEnv 896, EvDisconnect,
               EvFunc sampleEnv 704]"
  have "(17 :: 32 word) \<in> initFlags" by (simp add: initFlags_def)
  then have r: "lp3000Reach sampleDecls ?s"
    by (intro lp3000Reach_run reachInit)
  have e: "flags (context0 ?s) = 1169" "fcb ?s = Some [NL]" "fcode ?s = 704"
    by (simp_all add: lp3000_eval)
  have k: "Fc6681DevStatusReq sampleDecls = 704" "Fc6681Output sampleDecls = 896"
    by (simp_all add: sampleDecls_def)
  show ?thesis
    using lp3000_latched_only_while_enabled [OF r] r e
    by (simp add: k Let_def)
qed

subsection \<open>Removing the paper from an empty file\<close>

text \<open>
  Claim C9: for both printer families, when the capture file is open at position 0,
  removing the paper changes nothing in the slot but the operator log and the list of
  library calls: the file handle is the same, at most one line is logged, and the only
  library call that can be added is the flush (no close, no rename, no open). With valid
  numbers and the device found, exactly the line about no output is logged.
\<close>

theorem removePaper_empty_file_noop:
  assumes "fcb dp = Some f" and "ftell f = 0" and "fcb dq = Some g" and "ftell g = 0"
  shows "(let r = lp3000RemovePaper K env (n, c, e) dp in
            r\<lparr>oplog := oplog dp, hostcalls := hostcalls dp\<rparr> = dp \<and>
            fcb r = fcb dp \<and>
            (hostcalls r = hostcalls dp \<or> hostcalls r = hostcalls dp @ [Fflush]) \<and>
            length (oplog r) \<le> Suc (length (oplog dp)) \<and>
            take (length (oplog dp)) (oplog r) = oplog dp \<and>
            (n = 2 \<and> 0 \<le> c \<and> c < MaxChannels K \<and> 0 \<le> e \<and> e < MaxEquipment K \<and>
             findDevice env \<longrightarrow>
               oplog r = oplog dp @ [NoOutputWritten c e] \<and>
               hostcalls r = hostcalls dp @ [Fflush])) \<and>
         (let r = lp1612RemovePaper K env (n, c, e) dq in
            r\<lparr>oplog := oplog dq, hostcalls := hostcalls dq\<rparr> = dq \<and>
            fcb r = fcb dq \<and>
            (hostcalls r = hostcalls dq \<or> hostcalls r = hostcalls dq @ [Fflush]) \<and>
            length (oplog r) \<le> Suc (length (oplog dq)) \<and>
            take (length (oplog dq)) (oplog r) = oplog dq \<and>
            (n = 2 \<and> 0 \<le> c \<and> c < MaxChannels K \<and> 0 \<le> e \<and> e < MaxEquipment K \<and>
             findDevice env \<longrightarrow>
               oplog r = oplog dq @ [NoOutputWritten c e] \<and>
               hostcalls r = hostcalls dq @ [Fflush]))"
  using assms
  by (simp add: lp3000RemovePaper_def lp1612RemovePaper_def Let_def printf_def hostcall_def)

text \<open>
  Witness for C9: on freshly initialised printers of both families the operator command
  for channel 0, equipment 0 logs one line, flushes, and leaves the empty file open.
\<close>

theorem removePaper_empty_file_noop_witness:
  "(let dp = lp3000Init sampleChannel 0 17 False None;
        r = lp3000RemovePaper sampleDecls sampleEnv (2, 0, 0) dp
    in fcb r = Some [] \<and> oplog r = [NoOutputWritten 0 0] \<and> hostcalls r = [Fflush]) \<and>
   (let dq = lp1612Init sampleChannel False None;
        r = lp1612RemovePaper sampleDecls sampleEnv (2, 0, 0) dq
    in fcb r = Some [] \<and> oplog r = [NoOutputWritten 0 0] \<and> hostcalls r = [Fflush])"
proof -
  let ?dp = "lp3000Init sampleChannel 0 17 False None"
  let ?dq = "lp1612Init sampleChannel False None"
  have a: "fcb ?dp = Some []" "fcb ?dq = Some []" "ftell [] = 0"
    by (simp_all add: lp3000Init_def lp1612Init_def ftell_def)
  have b: "oplog ?dp = []" "hostcalls ?dp = []" "oplog ?dq = []" "hostcalls ?dq = []"
    by (simp_all add: lp3000Init_def lp1612Init_def)
  have k: "MaxChannels sampleDecls = 32" "MaxEquipment sampleDecls = 8" "findDevice sampleEnv"
    by (simp_all add: sampleDecls_def sampleEnv_def)
  show ?thesis
    using removePaper_empty_file_noop [OF a(1) a(3) a(2) a(3), of sampleDecls sampleEnv 2 0 0] a(1,2)
    by (simp add: Let_def b k)
qed

section \<open>The console\<close>

subsection \<open>Arithmetic of the ring indices\<close>

lemma ring_nat_count: "i < 50 \<Longrightarrow> j < 50 \<Longrightarrow> (i + 50 - j) mod 50 = (if j \<le> i then i - j else i + 50 - j)" for i j :: nat
  by (simp add: mod_if)

lemma ring_nat_next: "i < 50 \<Longrightarrow> Suc i mod 50 = (if i = 49 then 0 else Suc i)" for i :: nat
  by (simp add: mod_if)

lemma ring_nat_next_lt: "i < 50 \<Longrightarrow> (if i = 49 then 0 else Suc i) < 50" for i :: nat
  by simp

lemma ring_nat_empty: "i < 50 \<Longrightarrow> j < 50 \<Longrightarrow> ((i + 50 - j) mod 50 = 0) = (i = j)" for i j :: nat
  by (simp add: ring_nat_count)

lemma ring_nat_full: "i < 50 \<Longrightarrow> j < 50 \<Longrightarrow> (Suc i mod 50 = j) = ((i + 50 - j) mod 50 = 49)" for i j :: nat
  by (simp add: ring_nat_count ring_nat_next) arith

lemma ring_nat_in: "i < 50 \<Longrightarrow> j < 50 \<Longrightarrow> (j + (i + 50 - j) mod 50) mod 50 = i" for i j :: nat
  by (simp add: ring_nat_count mod_if)

lemma ring_nat_put: "i < 50 \<Longrightarrow> j < 50 \<Longrightarrow> Suc i mod 50 \<noteq> j \<Longrightarrow>
   (Suc i mod 50 + 50 - j) mod 50 = Suc ((i + 50 - j) mod 50)" for i j :: nat
proof -
  assume a: "i < 50" "j < 50" "Suc i mod 50 \<noteq> j"
  let ?n = "if i = 49 then 0 else Suc i"
  have n: "Suc i mod 50 = ?n" "?n < 50" using a(1) by (simp_all add: ring_nat_next)
  have "(?n + 50 - j) mod 50 = (if j \<le> ?n then ?n - j else ?n + 50 - j)"
    using n(2) a(2) by (rule ring_nat_count)
  moreover have "(i + 50 - j) mod 50 = (if j \<le> i then i - j else i + 50 - j)"
    using a(1,2) by (rule ring_nat_count)
  moreover have "?n \<noteq> j" using a(3) n(1) by simp
  ultimately show ?thesis using a(1,2) unfolding n(1) by (simp split: if_splits)
qed

lemma ring_nat_get: "i < 50 \<Longrightarrow> j < 50 \<Longrightarrow> i \<noteq> j \<Longrightarrow>
   Suc ((i + 50 - Suc j mod 50) mod 50) = (i + 50 - j) mod 50" for i j :: nat
proof -
  assume a: "i < 50" "j < 50" "i \<noteq> j"
  let ?n = "if j = 49 then 0 else Suc j"
  have n: "Suc j mod 50 = ?n" "?n < 50" using a(2) by (simp_all add: ring_nat_next)
  have "(i + 50 - ?n) mod 50 = (if ?n \<le> i then i - ?n else i + 50 - ?n)"
    using a(1) n(2) by (rule ring_nat_count)
  moreover have "(i + 50 - j) mod 50 = (if j \<le> i then i - j else i + 50 - j)"
    using a(1,2) by (rule ring_nat_count)
  ultimately show ?thesis using a unfolding n(1) by (simp split: if_splits)
qed

lemma ring_nat_distinct: "i < 50 \<Longrightarrow> j < 50 \<Longrightarrow> k < (i + 50 - j) mod 50 \<Longrightarrow> (j + k) mod 50 \<noteq> i" for i j k :: nat
proof -
  assume a: "i < 50" "j < 50" "k < (i + 50 - j) mod 50"
  have c: "(i + 50 - j) mod 50 = (if j \<le> i then i - j else i + 50 - j)"
    using a(1,2) by (rule ring_nat_count)
  have "j + k < 100" using a by simp
  then have m: "(j + k) mod 50 = (if j + k < 50 then j + k else j + k - 50)"
    by (simp add: mod_if)
  show ?thesis using a c unfolding m by (auto split: if_splits)
qed

lemma ring_nat_shift: "(Suc j mod 50 + k) mod 50 = (j + Suc k) mod 50" for j k :: nat
  by (simp add: mod_simps)

subsection \<open>One step of the producer and of the consumer\<close>

lemma unat_succ32: "unat (w :: 32 word) < 50 \<Longrightarrow> unat (w + 1) = Suc (unat w)"
  by (simp add: unat_word_ariths)

lemma eq50: "(w :: 32 word) = 50 \<longleftrightarrow> unat w = 50"
  by (simp add: word_unat_eq_iff)

lemma next_index:
  assumes "unat (w :: 32 word) < 50"
  shows "unat (if w + 1 = of_nat KeyBufSize then 0 else w + 1) = Suc (unat w) mod 50"
proof (cases "w + 1 = 50")
  case True
  then have "unat (w + 1) = 50" by (simp only: eq50)
  then have "Suc (unat w) = 50" using assms by (simp only: unat_succ32)
  then show ?thesis using True by simp
next
  case False
  then have "unat (w + 1) \<noteq> 50" by (simp only: eq50 not_False_eq_True)
  then have "Suc (unat w) \<noteq> 50" using assms by (simp only: unat_succ32 not_False_eq_True)
  then have "Suc (unat w) < 50" using assms by simp
  then show ?thesis using False assms by (simp add: unat_succ32)
qed

lemma length_ringKeys: "length (ringKeys v) = ringCount v"
  by (simp add: ringKeys_def)

lemma ringCount_lt: "ringCount v < 50"
  by (simp add: ringCount_def)

lemma ringCount_0: "ringInv v \<Longrightarrow> ringCount v = 0 \<longleftrightarrow> keyIn v = keyOut v"
  by (simp add: ringInv_def ringCount_def word_unat_eq_iff ring_nat_empty)

lemma ringCount_full:
  "ringInv v \<Longrightarrow> (Suc (unat (keyIn v)) mod 50 = unat (keyOut v)) \<longleftrightarrow> ringCount v = 49"
  by (simp add: ringInv_def ringCount_def ring_nat_full)

lemma queue_full:
  assumes "ringInv v" and "ringCount v = 49"
  shows "consoleQueueKey ch v = v"
proof -
  have i: "unat (keyIn v) < 50" using assms(1) by (simp add: ringInv_def)
  have "unat (if keyIn v + 1 = of_nat KeyBufSize then 0 else keyIn v + 1) = unat (keyOut v)"
    using assms ringCount_full [of v] next_index [OF i] by simp
  then have "(if keyIn v + 1 = of_nat KeyBufSize then 0 else keyIn v + 1) = keyOut v"
    by (simp only: word_unat_eq_iff)
  then show ?thesis by (simp add: consoleQueueKey_def Let_def)
qed

lemma queue_room:
  assumes "ringInv v" and "ringCount v \<noteq> 49"
  shows "consoleQueueKey ch v =
           v\<lparr>keyRing := (keyRing v)[unat (keyIn v) := ch],
             keyIn := (if keyIn v + 1 = of_nat KeyBufSize then 0 else keyIn v + 1)\<rparr>"
proof -
  have i: "unat (keyIn v) < 50" using assms(1) by (simp add: ringInv_def)
  have "unat (if keyIn v + 1 = of_nat KeyBufSize then 0 else keyIn v + 1) \<noteq> unat (keyOut v)"
    using assms ringCount_full [of v] next_index [OF i] by simp
  then have "(if keyIn v + 1 = of_nat KeyBufSize then 0 else keyIn v + 1) \<noteq> keyOut v"
    by (simp only: word_unat_eq_iff not_False_eq_True)
  then show ?thesis by (simp add: consoleQueueKey_def Let_def)
qed

lemma queue_room_keys:
  assumes "ringInv v" and "ringCount v \<noteq> 49"
  shows "ringInv (consoleQueueKey ch v) \<and> ringKeys (consoleQueueKey ch v) = ringKeys v @ [ch]"
proof -
  let ?i = "unat (keyIn v)" and ?j = "unat (keyOut v)" and ?r = "keyRing v"
  let ?n = "ringCount v"
  define nx where "nx = (if keyIn v + 1 = of_nat KeyBufSize then 0 else keyIn v + 1)"
  define v' where "v' = v\<lparr>keyRing := ?r[?i := ch], keyIn := nx\<rparr>"
  have b: "length ?r = 50" "?i < 50" "?j < 50" using assms(1) by (simp_all add: ringInv_def)
  have nx: "unat nx = Suc ?i mod 50" unfolding nx_def using b(2) by (rule next_index)
  have ne: "Suc ?i mod 50 \<noteq> ?j" using assms ringCount_full [of v] by simp
  have inv: "ringInv v'" using b nx by (simp add: ringInv_def v'_def)
  have cnt: "ringCount v' = Suc ?n"
    using ring_nat_put [OF b(2) b(3) ne] nx by (simp add: ringCount_def v'_def)
  have last: "(?j + ?n) mod 50 = ?i"
    using ring_nat_in [OF b(2) b(3)] by (simp add: ringCount_def)
  have old: "\<And>k. k < ?n \<Longrightarrow> ?r[?i := ch] ! ((?j + k) mod 50) = ?r ! ((?j + k) mod 50)"
  proof -
    fix k assume "k < ?n"
    then have "(?j + k) mod 50 \<noteq> ?i"
      using ring_nat_distinct [OF b(2) b(3), of k] by (simp add: ringCount_def)
    then show "?r[?i := ch] ! ((?j + k) mod 50) = ?r ! ((?j + k) mod 50)" by simp
  qed
  have "ringKeys v' = map (\<lambda>k. ?r[?i := ch] ! ((?j + k) mod 50)) [0..<Suc ?n]"
    by (simp add: ringKeys_def cnt) (simp add: v'_def)
  also have "\<dots> = map (\<lambda>k. ?r[?i := ch] ! ((?j + k) mod 50)) [0..<?n] @ [?r[?i := ch] ! ?i]"
    using last by simp
  also have "\<dots> = map (\<lambda>k. ?r ! ((?j + k) mod 50)) [0..<?n] @ [ch]"
    using old b by simp
  finally have "ringKeys v' = ringKeys v @ [ch]" by (simp add: ringKeys_def)
  moreover have "consoleQueueKey ch v = v'"
    unfolding v'_def nx_def by (rule queue_room [OF assms])
  ultimately show ?thesis using inv by simp
qed

lemma get_take:
  assumes "ringInv v" and "keyIn v \<noteq> keyOut v"
  shows "ringInv (v\<lparr>keyloops := n, keyOut := (if keyOut v + 1 = of_nat KeyBufSize then 0 else keyOut v + 1)\<rparr>) \<and>
         keyRing v ! unat (keyOut v) = hd (ringKeys v) \<and>
         ringKeys (v\<lparr>keyloops := n, keyOut := (if keyOut v + 1 = of_nat KeyBufSize then 0 else keyOut v + 1)\<rparr>)
           = tl (ringKeys v)"
proof -
  let ?i = "unat (keyIn v)" and ?j = "unat (keyOut v)" and ?r = "keyRing v"
  let ?n = "ringCount v"
  define nx where "nx = (if keyOut v + 1 = of_nat KeyBufSize then 0 else keyOut v + 1)"
  define v' where "v' = v\<lparr>keyloops := n, keyOut := nx\<rparr>"
  have b: "length ?r = 50" "?i < 50" "?j < 50" using assms(1) by (simp_all add: ringInv_def)
  have nx: "unat nx = Suc ?j mod 50" unfolding nx_def using b(3) by (rule next_index)
  have ne: "?i \<noteq> ?j" using assms(2) by (simp add: word_unat_eq_iff)
  have inv: "ringInv v'" using b nx by (simp add: ringInv_def v'_def)
  have cnt: "Suc (ringCount v') = ?n"
    using ring_nat_get [OF b(2) b(3) ne] nx by (simp add: ringCount_def v'_def)
  then have up: "[0..<?n] = 0 # map Suc [0..<ringCount v']"
    by (metis map_Suc_upt upt_conv_Cons zero_less_Suc)
  have keys: "ringKeys v = ?r ! ?j # map (\<lambda>k. ?r ! ((?j + Suc k) mod 50)) [0..<ringCount v']"
    unfolding ringKeys_def up using b(3) by (simp add: comp_def)
  have "ringKeys v' = map (\<lambda>k. ?r ! ((Suc ?j mod 50 + k) mod 50)) [0..<ringCount v']"
    unfolding ringKeys_def using nx by (simp add: v'_def)
  then have "ringKeys v' = map (\<lambda>k. ?r ! ((?j + Suc k) mod 50)) [0..<ringCount v']"
    by (simp only: ring_nat_shift)
  then show ?thesis using inv keys unfolding v'_def nx_def by simp
qed

lemma ringInv0: "ringInv consoleVars0"
  by (simp add: ringInv_def consoleVars0_def)

lemma ringKeys0: "ringKeys consoleVars0 = []"
  by (simp add: ringKeys_def ringCount_def consoleVars0_def)

lemma keyloops0: "keyloops consoleVars0 = 0"
  by (simp add: consoleVars0_def)

lemma ringKeys_Nil: "ringInv v \<Longrightarrow> ringKeys v = [] \<longleftrightarrow> keyIn v = keyOut v"
  using ringCount_0 [of v] length_ringKeys [of v] by (metis length_0_conv)

lemma queue_step:
  assumes "ringInv v"
  shows "ringInv (consoleQueueKey ch v) \<and>
         ringKeys (consoleQueueKey ch v) =
           (if length (ringKeys v) < KeyBufSize - 1 then ringKeys v @ [ch] else ringKeys v) \<and>
         keyloops (consoleQueueKey ch v) = keyloops v"
proof (cases "ringCount v = 49")
  case True
  then show ?thesis using assms queue_full [OF assms True] by (simp add: length_ringKeys)
next
  case False
  have "ringCount v < 49" using False ringCount_lt [of v] by simp
  moreover have "keyloops (consoleQueueKey ch v) = keyloops v"
    by (simp add: queue_room [OF assms False])
  ultimately show ?thesis using queue_room_keys [OF assms False] by (simp add: length_ringKeys)
qed

lemma get_empty: "keyIn v = keyOut v \<Longrightarrow> consoleGetKey v = (0, v)"
  by (simp add: consoleGetKey_def)

lemma get_skip:
  "keyIn v \<noteq> keyOut v \<Longrightarrow> (keyloops v + 1) mod 3 \<noteq> 1 \<Longrightarrow>
   consoleGetKey v = (0, v\<lparr>keyloops := keyloops v + 1\<rparr>)"
  by (simp add: consoleGetKey_def Let_def)

lemma get_key:
  "keyIn v \<noteq> keyOut v \<Longrightarrow> (keyloops v + 1) mod 3 = 1 \<Longrightarrow>
   consoleGetKey v =
     (keyRing v ! unat (keyOut v),
      v\<lparr>keyloops := keyloops v + 1,
        keyOut := (if keyOut v + 1 = of_nat KeyBufSize then 0 else keyOut v + 1)\<rparr>)"
  by (simp add: consoleGetKey_def Let_def)

lemma ring_keyloops_update:
  "ringInv (v\<lparr>keyloops := n\<rparr>) = ringInv v" "ringKeys (v\<lparr>keyloops := n\<rparr>) = ringKeys v"
  by (simp_all add: ringInv_def ringKeys_def ringCount_def)

lemma get_step:
  assumes "ringInv v"
  shows "ringInv (snd (consoleGetKey v)) \<and>
         (ringKeys (snd (consoleGetKey v)), keyloops (snd (consoleGetKey v))) =
           specKeyStep (ringKeys v, keyloops v) GetKey"
proof (cases "keyIn v = keyOut v")
  case True
  then show ?thesis using assms ringKeys_Nil [OF assms] by (simp add: get_empty)
next
  case ne: False
  then have q: "ringKeys v \<noteq> []" using ringKeys_Nil [OF assms] by simp
  show ?thesis
  proof (cases "(keyloops v + 1) mod 3 = 1")
    case True
    then show ?thesis using q get_take [OF assms ne, of "keyloops v + 1"]
      by (simp add: get_key [OF ne True])
  next
    case False
    then show ?thesis using q assms
      by (simp add: get_skip [OF ne False] ring_keyloops_update)
  qed
qed

lemma keyStep_refines:
  assumes "ringInv v"
  shows "ringInv (keyStep v op) \<and>
         (ringKeys (keyStep v op), keyloops (keyStep v op)) = specKeyStep (ringKeys v, keyloops v) op"
proof (cases op)
  case (QueueKey ch)
  then show ?thesis using queue_step [OF assms, of ch] by simp
next
  case GetKey
  then show ?thesis using get_step [OF assms] by simp
qed

lemma keyRun_refines:
  "ringInv v \<Longrightarrow>
   ringInv (keyRun v ops) \<and>
   (ringKeys (keyRun v ops), keyloops (keyRun v ops)) = foldl specKeyStep (ringKeys v, keyloops v) ops"
proof (induction ops arbitrary: v)
  case Nil
  then show ?case by (simp add: keyRun_def)
next
  case (Cons op ops)
  have s: "ringInv (keyStep v op)"
    "(ringKeys (keyStep v op), keyloops (keyStep v op)) = specKeyStep (ringKeys v, keyloops v) op"
    using keyStep_refines [OF Cons.prems, of op] by simp_all
  show ?case using Cons.IH [OF s(1)] s(2) by (simp add: keyRun_def)
qed

lemma ringCount_int:
  assumes "ringInv v"
  shows "(int (unat (keyIn v)) - int (unat (keyOut v))) mod 50 = int (ringCount v)"
proof -
  have j: "unat (keyOut v) < 50" using assms by (simp add: ringInv_def)
  then have "int (unat (keyIn v) + 50 - unat (keyOut v)) = int (unat (keyIn v)) - int (unat (keyOut v)) + 50"
    by simp
  then have "int (ringCount v) = (int (unat (keyIn v)) - int (unat (keyOut v)) + 50) mod 50"
    by (simp add: ringCount_def zmod_int)
  then show ?thesis by simp
qed


lemma spec_fill:
  "length q + n \<le> 49 \<Longrightarrow>
   foldl specKeyStep (q, k) (replicate n (QueueKey ch)) = (q @ replicate n ch, k)"
proof (induction n arbitrary: q)
  case 0
  then show ?case by simp
next
  case (Suc n)
  then show ?case by (simp add: replicate_app_Cons_same)
qed

subsection \<open>The keyboard ring and the queue of the specification\<close>

text \<open>
  Claim C5: after every sequence of \<^verbatim>\<open>consoleQueueKey\<close> and \<^verbatim>\<open>consoleGetKey\<close> calls from the
  empty ring, the keys between \<^verbatim>\<open>keyOut\<close> and \<^verbatim>\<open>keyIn\<close> are the queue of the
  specification (and the call counter agrees); the queue is empty exactly when
  \<^verbatim>\<open>keyIn = keyOut\<close>; the occupancy \<open>(keyIn - keyOut) mod 50\<close> is the length of the queue
  and is at most 49; and when \<open>(keyIn + 1) mod 50 = keyOut\<close> the queue holds 49 keys and
  a further \<^verbatim>\<open>consoleQueueKey\<close> leaves the ring and both indices unchanged.
\<close>

theorem keyRing_refines_queue:
  "(let v = keyRun consoleVars0 ops; q = fst (specKeyRun ops) in
      ringInv v \<and> ringKeys v = q \<and> keyloops v = snd (specKeyRun ops) \<and>
      (q = [] \<longleftrightarrow> keyIn v = keyOut v) \<and>
      (int (unat (keyIn v)) - int (unat (keyOut v))) mod 50 = int (length q) \<and>
      length q \<le> 49 \<and>
      (\<forall>ch. (unat (keyIn v) + 1) mod KeyBufSize = unat (keyOut v) \<longrightarrow>
            length q = 49 \<and> consoleQueueKey ch v = v))"
proof -
  define v where "v = keyRun consoleVars0 ops"
  have r: "ringInv v" "(ringKeys v, keyloops v) = specKeyRun ops"
    using keyRun_refines [OF ringInv0, of ops]
    by (simp_all add: v_def specKeyRun_def ringKeys0 keyloops0)
  have q: "ringKeys v = fst (specKeyRun ops)" "keyloops v = snd (specKeyRun ops)"
    using r(2) [symmetric] by simp_all
  have e: "ringKeys v = [] \<longleftrightarrow> keyIn v = keyOut v" using r(1) by (rule ringKeys_Nil)
  have c: "(int (unat (keyIn v)) - int (unat (keyOut v))) mod 50 = int (length (ringKeys v))"
    using ringCount_int [OF r(1)] by (simp add: length_ringKeys)
  have l: "length (ringKeys v) \<le> 49" using ringCount_lt [of v] by (simp add: length_ringKeys)
  have f: "\<And>ch. (unat (keyIn v) + 1) mod KeyBufSize = unat (keyOut v) \<Longrightarrow>
              length (ringKeys v) = 49 \<and> consoleQueueKey ch v = v"
    using ringCount_full [OF r(1)] queue_full [OF r(1)] by (simp add: length_ringKeys)
  show ?thesis
    unfolding Let_def v_def [symmetric] q [symmetric] using r(1) e c l f by simp
qed


text \<open>
  Witness for C5: after 49 keys the ring is full, and the fiftieth key is dropped.
\<close>

theorem keyRing_refines_queue_witness:
  "(let v = keyRun consoleVars0 (replicate 49 (QueueKey 7)) in
      ringKeys v = replicate 49 7 \<and> keyIn v \<noteq> keyOut v \<and>
      (unat (keyIn v) + 1) mod KeyBufSize = unat (keyOut v) \<and>
      consoleQueueKey 9 v = v)"
proof -
  define v where "v = keyRun consoleVars0 (replicate 49 (QueueKey 7))"
  have s: "specKeyRun (replicate 49 (QueueKey 7)) = (replicate 49 7, 0)"
    unfolding specKeyRun_def using spec_fill [of "[]" 49 0 7] by simp
  have t: "ringInv v" "ringKeys v = replicate 49 7" "(ringKeys v = []) = (keyIn v = keyOut v)"
    "\<forall>ch. (unat (keyIn v) + 1) mod KeyBufSize = unat (keyOut v) \<longrightarrow>
          length (ringKeys v) = 49 \<and> consoleQueueKey ch v = v"
    using keyRing_refines_queue [of "replicate 49 (QueueKey 7)"] unfolding Let_def v_def [symmetric] s
    by simp_all
  have "ringCount v = 49" using t(2) length_ringKeys [of v] by simp
  then have f: "(unat (keyIn v) + 1) mod KeyBufSize = unat (keyOut v)"
    using ringCount_full [OF t(1)] by simp
  have n: "keyIn v \<noteq> keyOut v" using t(2,3) by simp
  show ?thesis unfolding Let_def v_def [symmetric] using t(2) n f t(4) by simp
qed


subsection \<open>The throttle of the consumer\<close>

text \<open>
  Claim C6, as the code has it: \<^verbatim>\<open>consoleGetKey\<close> returns 0 when the ring is empty, and
  then changes nothing, the counter included. On a ring that is not empty it increments
  the counter; when the incremented counter modulo 3 is 1 it returns the oldest key and
  advances \<^verbatim>\<open>keyOut\<close>, otherwise it returns 0 and takes no key.
\<close>

theorem consoleGetKey_throttle:
  "(keyIn v = keyOut v \<longrightarrow> consoleGetKey v = (0, v)) \<and>
   (keyIn v \<noteq> keyOut v \<longrightarrow>
      keyloops (snd (consoleGetKey v)) = keyloops v + 1 \<and>
      ((keyloops v + 1) mod 3 = 1 \<longrightarrow>
         consoleGetKey v =
           (keyRing v ! unat (keyOut v),
            v\<lparr>keyloops := keyloops v + 1,
              keyOut := (if keyOut v + 1 = of_nat KeyBufSize then 0 else keyOut v + 1)\<rparr>) \<and>
         (ringInv v \<longrightarrow> fst (consoleGetKey v) = hd (ringKeys v) \<and>
                       ringKeys (snd (consoleGetKey v)) = tl (ringKeys v))) \<and>
      ((keyloops v + 1) mod 3 \<noteq> 1 \<longrightarrow>
         consoleGetKey v = (0, v\<lparr>keyloops := keyloops v + 1\<rparr>) \<and>
         ringKeys (snd (consoleGetKey v)) = ringKeys v))"
proof (cases "keyIn v = keyOut v")
  case True
  then show ?thesis by (simp add: get_empty)
next
  case ne: False
  show ?thesis
  proof (cases "(keyloops v + 1) mod 3 = 1")
    case True
    have "ringInv v \<Longrightarrow> keyRing v ! unat (keyOut v) = hd (ringKeys v) \<and>
       ringKeys (v\<lparr>keyloops := keyloops v + 1,
              keyOut := (if keyOut v + 1 = of_nat KeyBufSize then 0 else keyOut v + 1)\<rparr>) = tl (ringKeys v)"
      using get_take [OF _ ne, of "keyloops v + 1"] by simp
    then show ?thesis using ne True by (simp add: get_key [OF ne True])
  next
    case False
    then show ?thesis using ne by (simp add: get_skip [OF ne False] ring_keyloops_update)
  qed
qed


text \<open>
  Witness for C6: on the empty ring the call returns 0; with the key 5 queued the first
  call returns 5 and makes the counter 1; with two keys queued the second call returns 0.
\<close>

theorem consoleGetKey_throttle_witness:
  "consoleGetKey consoleVars0 = (0, consoleVars0) \<and>
   fst (consoleGetKey (consoleQueueKey 5 consoleVars0)) = 5 \<and>
   keyloops (snd (consoleGetKey (consoleQueueKey 5 consoleVars0))) = 1 \<and>
   fst (consoleGetKey (snd (consoleGetKey (consoleQueueKey 6 (consoleQueueKey 5 consoleVars0))))) = 0"
proof -
  let ?v1 = "consoleQueueKey 5 consoleVars0"
  let ?v2 = "snd (consoleGetKey (consoleQueueKey 6 (consoleQueueKey 5 consoleVars0)))"
  have a: "keyIn consoleVars0 = keyOut consoleVars0" by (simp add: consoleVars0_def)
  have b: "keyIn ?v1 \<noteq> keyOut ?v1" "(keyloops ?v1 + 1) mod 3 = 1" "keyRing ?v1 ! unat (keyOut ?v1) = 5"
    "keyloops ?v1 = 0"
    by (simp_all add: consoleQueueKey_def consoleVars0_def Let_def)
  have c: "keyIn ?v2 \<noteq> keyOut ?v2" "(keyloops ?v2 + 1) mod 3 \<noteq> 1"
    by (simp_all add: consoleQueueKey_def consoleGetKey_def consoleVars0_def Let_def)
  show ?thesis
    using consoleGetKey_throttle [of consoleVars0] consoleGetKey_throttle [of ?v1] consoleGetKey_throttle [of ?v2] a b c by simp
qed


text \<open>
  Claim C6 as stated fails where it says that the counter increments on every call: a
  call on the empty ring leaves the counter at 0, so that a key queued after it is
  returned by the very next call.
\<close>

theorem consoleGetKey_empty_keeps_counter:
  "keyloops (snd (consoleGetKey consoleVars0)) = keyloops consoleVars0 \<and>
   keyloops consoleVars0 = 0 \<and>
   fst (consoleGetKey (consoleQueueKey 5 (snd (consoleGetKey consoleVars0)))) = 5"
  by (simp add: consoleQueueKey_def consoleGetKey_def consoleVars0_def Let_def)


subsection \<open>Function codes of the console\<close>

text \<open>
  Claim C10: every call of \<^verbatim>\<open>consoleFunc\<close> leaves the full flag of the channel false. For
  a code that is not one of its case labels it returns Declined and changes nothing
  else: no other field of the channel or of the device, and the code is not latched.
  For its own codes it returns Accepted and latches the code.
\<close>

theorem consoleFunc_clears_full:
  "full (channel (snd (consoleFunc K funcCode s))) = False \<and>
   (funcCode \<notin> consoleCodes \<longrightarrow>
      consoleFunc K funcCode s = (FcDeclined, s\<lparr>channel := (channel s)\<lparr>full := False\<rparr>\<rparr>)) \<and>
   (funcCode \<in> consoleCodes \<longrightarrow>
      fst (consoleFunc K funcCode s) = FcAccepted \<and> fcode (snd (consoleFunc K funcCode s)) = funcCode)"
  by (simp add: consoleFunc_def consoleCodes_def Let_def cvUpdate_def)


text \<open>
  Witness for C10: code 0 on a channel holding a word is declined and only the full
  flag changes; the keyboard select is accepted.
\<close>

theorem consoleFunc_clears_full_witness:
  "consoleFunc sampleDecls 0 ((consoleInit sampleChannel)\<lparr>channel := sampleChannel\<lparr>data := 5, full := True\<rparr>\<rparr>)
     = (FcDeclined, (consoleInit sampleChannel)\<lparr>channel := sampleChannel\<lparr>data := 5, full := False\<rparr>\<rparr>) \<and>
   fst (consoleFunc sampleDecls Fc6612SelKeyIn (consoleInit sampleChannel)) = FcAccepted"
proof -
  have a: "(0 :: PpWord) \<notin> consoleCodes" "Fc6612SelKeyIn \<in> consoleCodes"
    by (simp_all add: consoleCodes_def)
  show ?thesis
    using consoleFunc_clears_full [of sampleDecls 0 "(consoleInit sampleChannel)\<lparr>channel := sampleChannel\<lparr>data := 5, full := True\<rparr>\<rparr>"]
      consoleFunc_clears_full [of sampleDecls Fc6612SelKeyIn "consoleInit sampleChannel"] a
    by simp
qed

subsection \<open>Auto date entry\<close>

lemma consoleQueueKey_fields:
  "autoDate (consoleQueueKey ch v) = autoDate v"
  "autoPos (consoleQueueKey ch v) = autoPos v"
  "keyOut (consoleQueueKey ch v) = keyOut v"
  by (simp_all add: consoleQueueKey_def Let_def)

lemma queueKeys_Cons:
  "queueKeys K (c # str) v = queueKeys K str (consoleQueueKey (asciiToConsole K (of_char c)) v)"
  by (simp add: queueKeys_def)

lemma queueKeys_fields:
  "autoDate (queueKeys K str v) = autoDate v \<and> autoPos (queueKeys K str v) = autoPos v \<and>
   keyOut (queueKeys K str v) = keyOut v"
proof (induction str arbitrary: v)
  case Nil
  then show ?case by (simp add: queueKeys_def)
next
  case (Cons c str)
  then show ?case by (simp add: queueKeys_Cons consoleQueueKey_fields)
qed

lemma queueKeys_keys:
  "ringInv v \<Longrightarrow> length (ringKeys v) + length str \<le> 49 \<Longrightarrow>
   ringInv (queueKeys K str v) \<and>
   ringKeys (queueKeys K str v) = ringKeys v @ map (\<lambda>c. asciiToConsole K (of_char c)) str"
proof (induction str arbitrary: v)
  case Nil
  then show ?case by (simp add: queueKeys_def)
next
  case (Cons c str)
  let ?v = "consoleQueueKey (asciiToConsole K (of_char c)) v"
  have r: "length (ringKeys v) < KeyBufSize - 1" using Cons.prems(2) by simp
  have s: "ringInv ?v" "ringKeys ?v = ringKeys v @ [asciiToConsole K (of_char c)]"
    using queue_step [OF Cons.prems(1), of "asciiToConsole K (of_char c)"] r by simp_all
  have "length (ringKeys ?v) + length str \<le> 49" using Cons.prems(2) s(2) by simp
  from Cons.IH [OF s(1) this] show ?case by (simp add: queueKeys_Cons s(2))
qed

lemma length_strftime: "length (strftime_ymdHMS t) = 14"
  by (simp add: strftime_ymdHMS_def digits2_def)

lemma length_autoDateText: "length (autoDateText year t) \<le> 14"
proof -
  have "length (autoDateText year t) \<le> length (cAt year 0 # cAt year 1 # drop 2 (strftime_ymdHMS t))"
    unfolding autoDateText_def by (rule length_takeWhile_le)
  then show ?thesis by (simp add: length_strftime)
qed

lemma digit_not_NUL: "''0123456789'' ! nat ((n :: int) mod 10) \<noteq> CHR 0x00"
proof -
  have "nat (n mod 10) < length ''0123456789''" by simp
  then have "''0123456789'' ! nat (n mod 10) \<in> set ''0123456789''" by (rule nth_mem)
  then show ?thesis by auto
qed

lemma digits2_not_NUL: "CHR 0x00 \<notin> set (digits2 n)"
  using digit_not_NUL [of n] digit_not_NUL [of "n div 10"] by (simp add: digits2_def)

lemma strftime_not_NUL: "CHR 0x00 \<notin> set (strftime_ymdHMS t)"
  by (simp add: strftime_ymdHMS_def digits2_not_NUL)

lemma autoDateText_year:
  assumes "cAt year 0 \<noteq> CHR 0x00" and "cAt year 1 \<noteq> CHR 0x00"
  shows "autoDateText year t = cAt year 0 # cAt year 1 # drop 2 (strftime_ymdHMS t)"
proof -
  have "CHR 0x00 \<notin> set (drop 2 (strftime_ymdHMS t))"
    using strftime_not_NUL [of t] by (meson in_set_dropD)
  then have "takeWhile (\<lambda>c. c \<noteq> CHR 0x00) (drop 2 (strftime_ymdHMS t)) = drop 2 (strftime_ymdHMS t)"
    by (simp add: takeWhile_eq_all_conv) metis
  then show ?thesis using assms by (simp add: autoDateText_def)
qed

lemma ring_window_update:
  "ringInv (v\<lparr>emptyDrop := e, window := w\<rparr>) = ringInv v"
  "ringKeys (v\<lparr>emptyDrop := e, window := w\<rparr>) = ringKeys v"
  "autoDateMatch K d (v\<lparr>emptyDrop := e, window := w\<rparr>) = autoDateMatch K d v"
  "autoDateDone (v\<lparr>emptyDrop := e, window := w\<rparr>) = autoDateDone v"
  by (simp_all add: ringInv_def ringKeys_def ringCount_def autoDateMatch_def autoDateDone_def)

lemma ring_autoDate_update:
  "ringInv (v\<lparr>autoDate := a\<rparr>) = ringInv v"
  "ringKeys (v\<lparr>autoDate := a\<rparr>) = ringKeys v"
  by (simp_all add: ringInv_def ringKeys_def ringCount_def)

lemma consoleIo_medium:
  assumes "fcode s = Fc6612Sel32CharLeft \<or> fcode s = Fc6612Sel32CharRight"
    and "full (channel s)" and "autoDate (context0 s)"
  shows "\<exists>w. context0 (consoleIo K env s) =
              autoDateCheck K env (fcode s) (data (channel s))
                ((context0 s)\<lparr>emptyDrop := False, window := w\<rparr>)"
  using assms
  by (auto simp add: consoleIo_def Let_def cvUpdate_def windowCall_def)

lemma autoDateCheck_cases:
  assumes "fc = Fc6612Sel32CharLeft \<or> fc = Fc6612Sel32CharRight"
  shows "autoDateCheck K env fc d v =
           (if autoDateMatch K d v then
              if autoDateDone v then
                if keyOut v = keyIn v
                then queueKeys K (autoDateText (autoYearString v) (localtimeNow env)) (v\<lparr>autoDate := False\<rparr>)
                else v\<lparr>autoDate := False\<rparr>
              else v\<lparr>autoPos := autoPos v + 2\<rparr>
            else v\<lparr>autoPos := 0\<rparr>)"
  using assms by (auto simp add: autoDateCheck_def autoDateMatch_def autoDateDone_def Let_def)

lemma autoDateCheck_result:
  assumes "fc = Fc6612Sel32CharLeft \<or> fc = Fc6612Sel32CharRight" and "autoDate v"
  shows "(autoDateMatch K d v \<and> autoDateDone v \<longrightarrow>
            \<not> autoDate (autoDateCheck K env fc d v) \<and>
            autoPos (autoDateCheck K env fc d v) = autoPos v \<and>
            (keyIn v = keyOut v \<longrightarrow> ringInv v \<longrightarrow>
               ringKeys (autoDateCheck K env fc d v) =
                 map (\<lambda>c. asciiToConsole K (of_char c))
                   (autoDateText (autoYearString v) (localtimeNow env))) \<and>
            (keyIn v \<noteq> keyOut v \<longrightarrow>
               keyRing (autoDateCheck K env fc d v) = keyRing v \<and>
               keyIn (autoDateCheck K env fc d v) = keyIn v \<and>
               keyOut (autoDateCheck K env fc d v) = keyOut v)) \<and>
         (autoDateMatch K d v \<and> \<not> autoDateDone v \<longrightarrow>
            autoPos (autoDateCheck K env fc d v) = autoPos v + 2 \<and>
            autoDate (autoDateCheck K env fc d v) \<and>
            keyRing (autoDateCheck K env fc d v) = keyRing v \<and>
            keyIn (autoDateCheck K env fc d v) = keyIn v \<and>
            keyOut (autoDateCheck K env fc d v) = keyOut v) \<and>
         (\<not> autoDateMatch K d v \<longrightarrow>
            autoPos (autoDateCheck K env fc d v) = 0 \<and>
            autoDate (autoDateCheck K env fc d v) \<and>
            keyRing (autoDateCheck K env fc d v) = keyRing v \<and>
            keyIn (autoDateCheck K env fc d v) = keyIn v \<and>
            keyOut (autoDateCheck K env fc d v) = keyOut v)"
proof -
  let ?txt = "autoDateText (autoYearString v) (localtimeNow env)"
  let ?v1 = "v\<lparr>autoDate := False\<rparr>"
  have f: "\<not> autoDate (queueKeys K ?txt ?v1)" "autoPos (queueKeys K ?txt ?v1) = autoPos v"
    using queueKeys_fields [of K ?txt ?v1] by simp_all
  have k: "keyIn v = keyOut v \<Longrightarrow> ringInv v \<Longrightarrow>
           ringKeys (queueKeys K ?txt ?v1) = map (\<lambda>c. asciiToConsole K (of_char c)) ?txt"
  proof -
    assume e: "keyIn v = keyOut v" and i: "ringInv v"
    have i1: "ringInv ?v1" using i by (simp add: ring_autoDate_update)
    have "ringKeys ?v1 = []" using ringKeys_Nil [OF i] e by (simp add: ring_autoDate_update)
    moreover have "length ?txt \<le> 14" by (rule length_autoDateText)
    ultimately show ?thesis using queueKeys_keys [OF i1, of ?txt K] by simp
  qed
  show ?thesis
    unfolding autoDateCheck_cases [OF assms(1)] using assms(2) f k by auto
qed

lemma digit_lookup:
  assumes "0 \<le> d" and "d \<le> 9"
  shows "''0123456789'' ! nat d = decimalDigit (d :: int)"
proof -
  have "d = 0 \<or> d = 1 \<or> d = 2 \<or> d = 3 \<or> d = 4 \<or> d = 5 \<or> d = 6 \<or> d = 7 \<or> d = 8 \<or> d = 9"
    using assms by arith
  then show ?thesis by (auto simp add: decimalDigit_def)
qed

lemma digits2_twoDigits:
  assumes "0 \<le> n" and "n \<le> 99"
  shows "digits2 n = twoDigits (n :: int)"
proof -
  have a: "0 \<le> n div 10" "n div 10 \<le> 9" using assms by simp_all
  then have b: "n div 10 mod 10 = n div 10" by simp
  have c: "0 \<le> n mod 10" "n mod 10 \<le> 9" by simp_all
  show ?thesis
    by (simp add: digits2_def twoDigits_def b digit_lookup [OF a] digit_lookup [OF c])
qed

lemma strftime_valid:
  assumes "validTm t"
  shows "drop 2 (strftime_ymdHMS t) =
           twoDigits (tm_mon t + 1) @ twoDigits (tm_mday t) @ [NL] @
           twoDigits (tm_hour t) @ twoDigits (tm_min t) @ twoDigits (tm_sec t) @ [NL]"
proof -
  have "digits2 (tm_mon t + 1) = twoDigits (tm_mon t + 1)" "digits2 (tm_mday t) = twoDigits (tm_mday t)"
    "digits2 (tm_hour t) = twoDigits (tm_hour t)" "digits2 (tm_min t) = twoDigits (tm_min t)"
    "digits2 (tm_sec t) = twoDigits (tm_sec t)"
    using assms by (simp_all add: validTm_def digits2_twoDigits)
  moreover have "length (digits2 (tm_year t mod 100)) = 2" by (simp add: digits2_def)
  ultimately show ?thesis by (simp add: strftime_ymdHMS_def)
qed

lemma autoDateText_stamp:
  assumes "cAt year 0 \<noteq> CHR 0x00" and "cAt year 1 \<noteq> CHR 0x00" and "validTm t"
  shows "autoDateText year t = specTimeStamp (cAt year 0) (cAt year 1) t"
  using autoDateText_year [OF assms(1,2), of t] strftime_valid [OF assms(3)]
  by (simp add: specTimeStamp_def)

lemma autoDateText_short:
  "cAt year 0 = CHR 0x00 \<Longrightarrow> autoDateText year t = []"
  "cAt year 0 \<noteq> CHR 0x00 \<Longrightarrow> cAt year 1 = CHR 0x00 \<Longrightarrow> autoDateText year t = [cAt year 0]"
  by (simp_all add: autoDateText_def)

lemma consoleIo_autoDate_keys:
  assumes "fcode s = Fc6612Sel32CharLeft \<or> fcode s = Fc6612Sel32CharRight"
    and "full (channel s)" and "autoDate (context0 s)"
  shows "(let v = context0 s; d = data (channel s); v' = context0 (consoleIo K env s);
              y0 = cAt (autoYearString v) 0; y1 = cAt (autoYearString v) 1 in
          (autoDateMatch K d v \<and> autoDateDone v \<longrightarrow>
             \<not> autoDate v' \<and> autoPos v' = autoPos v \<and>
             (keyIn v = keyOut v \<longrightarrow> ringInv v \<longrightarrow>
                (y0 \<noteq> CHR 0x00 \<and> y1 \<noteq> CHR 0x00 \<and> validTm (localtimeNow env) \<longrightarrow>
                   ringKeys v' =
                     map (\<lambda>c. asciiToConsole K (of_char c)) (specTimeStamp y0 y1 (localtimeNow env))) \<and>
                (y0 \<noteq> CHR 0x00 \<and> y1 = CHR 0x00 \<longrightarrow>
                   ringKeys v' = [asciiToConsole K (of_char y0)]) \<and>
                (y0 = CHR 0x00 \<longrightarrow> ringKeys v' = [])) \<and>
             (keyIn v \<noteq> keyOut v \<longrightarrow>
                keyRing v' = keyRing v \<and> keyIn v' = keyIn v \<and> keyOut v' = keyOut v)) \<and>
          (autoDateMatch K d v \<and> \<not> autoDateDone v \<longrightarrow>
             autoPos v' = autoPos v + 2 \<and> autoDate v' \<and>
             keyRing v' = keyRing v \<and> keyIn v' = keyIn v \<and> keyOut v' = keyOut v) \<and>
          (\<not> autoDateMatch K d v \<longrightarrow>
             autoPos v' = 0 \<and> autoDate v' \<and>
             keyRing v' = keyRing v \<and> keyIn v' = keyIn v \<and> keyOut v' = keyOut v))"
proof -
  obtain w where w: "context0 (consoleIo K env s) =
      autoDateCheck K env (fcode s) (data (channel s)) ((context0 s)\<lparr>emptyDrop := False, window := w\<rparr>)"
    using consoleIo_medium [OF assms] by blast
  let ?u = "(context0 s)\<lparr>emptyDrop := False, window := w\<rparr>"
  let ?year = "autoYearString (context0 s)"
  have a: "autoDate ?u" using assms(3) by simp
  have t1: "cAt ?year 0 \<noteq> CHR 0x00 \<Longrightarrow> cAt ?year 1 \<noteq> CHR 0x00 \<Longrightarrow> validTm (localtimeNow env) \<Longrightarrow>
            autoDateText ?year (localtimeNow env) = specTimeStamp (cAt ?year 0) (cAt ?year 1) (localtimeNow env)"
    by (rule autoDateText_stamp)
  have t2: "cAt ?year 0 \<noteq> CHR 0x00 \<Longrightarrow> cAt ?year 1 = CHR 0x00 \<Longrightarrow>
            autoDateText ?year (localtimeNow env) = [cAt ?year 0]"
    by (rule autoDateText_short(2))
  have t3: "cAt ?year 0 = CHR 0x00 \<Longrightarrow> autoDateText ?year (localtimeNow env) = []"
    by (rule autoDateText_short(1))
  show ?thesis
    unfolding Let_def w
    using autoDateCheck_result [OF assms(1) a, of K "data (channel s)" env] t1 t2 t3
    by (simp add: ring_window_update)
qed

text \<open>
  Claim C7, as the code has it: with \<^verbatim>\<open>autoDate\<close> set, a word written while medium
  characters are selected (\<^verbatim>\<open>Fc6612Sel32CharLeft\<close> or \<^verbatim>\<open>Fc6612Sel32CharRight\<close> latched,
  channel full) is compared with the next two characters of \<^verbatim>\<open>autoDateString\<close> at
  \<^verbatim>\<open>autoPos\<close>. If it matches and the pattern ends there, \<^verbatim>\<open>autoDate\<close> is cleared; if the
  keyboard ring is empty and \<^verbatim>\<open>autoYearString\<close> has at least two characters, the ring
  then holds the keys of the time stamp of the specification for the local time: the
  two year characters, month, day, new line, hour, minute, second, new line, each byte
  passed through \<^verbatim>\<open>asciiToConsole\<close>. With a year of one character only the key of that
  character is queued, with an empty year none. If the word matches and the pattern goes
  on, \<^verbatim>\<open>autoPos\<close> advances by 2. If it does not match, \<^verbatim>\<open>autoPos\<close> becomes 0. In the
  last two cases, and on a ring that is not empty, the ring is untouched.
\<close>

theorem consoleIo_autoDate:
  assumes "fcode s = Fc6612Sel32CharLeft \<or> fcode s = Fc6612Sel32CharRight"
    and "full (channel s)" and "autoDate (context0 s)"
  shows "(let v = context0 s; d = data (channel s); v' = context0 (consoleIo K env s);
              y0 = cAt (autoYearString v) 0; y1 = cAt (autoYearString v) 1 in
          (autoDateMatch K d v \<and> autoDateDone v \<longrightarrow>
             \<not> autoDate v' \<and> autoPos v' = autoPos v \<and>
             (keyIn v = keyOut v \<longrightarrow> ringInv v \<longrightarrow>
                (y0 \<noteq> CHR 0x00 \<and> y1 \<noteq> CHR 0x00 \<and> validTm (localtimeNow env) \<longrightarrow>
                   ringKeys v' =
                     map (\<lambda>c. asciiToConsole K (of_char c)) (specTimeStamp y0 y1 (localtimeNow env))) \<and>
                (y0 \<noteq> CHR 0x00 \<and> y1 = CHR 0x00 \<longrightarrow>
                   ringKeys v' = [asciiToConsole K (of_char y0)]) \<and>
                (y0 = CHR 0x00 \<longrightarrow> ringKeys v' = [])) \<and>
             (keyIn v \<noteq> keyOut v \<longrightarrow>
                keyRing v' = keyRing v \<and> keyIn v' = keyIn v \<and> keyOut v' = keyOut v)) \<and>
          (autoDateMatch K d v \<and> \<not> autoDateDone v \<longrightarrow>
             autoPos v' = autoPos v + 2 \<and> autoDate v' \<and>
             keyRing v' = keyRing v \<and> keyIn v' = keyIn v \<and> keyOut v' = keyOut v) \<and>
          (\<not> autoDateMatch K d v \<longrightarrow>
             autoPos v' = 0 \<and> autoDate v' \<and>
             keyRing v' = keyRing v \<and> keyIn v' = keyIn v \<and> keyOut v' = keyOut v))"
  using assms by (rule consoleIo_autoDate_keys)


lemma sample_year:
  "fcode (autoDateSampleYear year p w) = Fc6612Sel32CharLeft \<or>
   fcode (autoDateSampleYear year p w) = Fc6612Sel32CharRight"
  "full (channel (autoDateSampleYear year p w))"
  "autoDate (context0 (autoDateSampleYear year p w))"
  "context0 (autoDateSampleYear year p w) =
     consoleVars0\<lparr>autoDate := True, autoDateString := ''ENTER DATE'',
                    autoYearString := year, autoPos := p\<rparr>"
  "data (channel (autoDateSampleYear year p w)) = w"
  by (simp_all add: autoDateSampleYear_def autoDateSample_def cvUpdate_def)

lemma sample_asciiToCdc:
  "asciiToCdc sampleDecls = (\<lambda>i. if 65 \<le> i \<and> i \<le> 90 then of_nat (i - 64) else 45)"
  by (simp add: sampleDecls_def)

lemma sample_match:
  "autoDateMatch sampleDecls 1285 (context0 (autoDateSampleYear year 8 1285))"
  "autoDateDone (context0 (autoDateSampleYear year 8 1285))"
  "autoDateMatch sampleDecls 334 (context0 (autoDateSampleYear year 0 334))"
  "\<not> autoDateDone (context0 (autoDateSampleYear year 0 334))"
  "\<not> autoDateMatch sampleDecls 334 (context0 (autoDateSampleYear year 4 334))"
  by (simp_all add: sample_year autoDateMatch_def autoDateDone_def cAt_def sample_asciiToCdc)

lemma sample_ring:
  "ringInv (context0 (autoDateSampleYear year p w))"
  "keyIn (context0 (autoDateSampleYear year p w)) = keyOut (context0 (autoDateSampleYear year p w))"
  "autoYearString (context0 (autoDateSampleYear year p w)) = year"
  "autoPos (context0 (autoDateSampleYear year p w)) = p"
  by (simp_all add: sample_year ringInv_def consoleVars0_def)

lemma sample_stamps:
  "map (\<lambda>c. asciiToConsole sampleDecls (of_char c)) (specTimeStamp CHR ''7'' CHR ''0'' sampleTm)
     = [34, 27, 28, 28, 27, 29, 48, 29, 30, 28, 31, 27, 32, 48]"
  "map (\<lambda>c. asciiToConsole sampleDecls (of_char c)) (specTimeStamp CHR ''7'' CHR ''0'' sampleTm2)
     = [34, 27, 27, 28, 30, 28, 48, 27, 34, 32, 36, 31, 27, 48]"
  "validTm sampleTm" "validTm sampleTm2"
  by (simp_all add: specTimeStamp_def twoDigits_def decimalDigit_def sampleTm_def sampleTm2_def
      sampleDecls_def validTm_def)


text \<open>
  Witness for C7: the pattern \<open>ENTER DATE\<close> with the year \<open>70\<close>. The word \<open>TE\<close> at
  position 8 completes the pattern: \<^verbatim>\<open>autoDate\<close> is cleared and the ring holds the
  fourteen keys of \<open>701102\<close>, new line, \<open>231405\<close>, new line; at another time, those of
  \<open>700131\<close>, new line, \<open>075940\<close>, new line. The word \<open>EN\<close> at position 0 advances
  the position to 2, and at position 4 it resets the position to 0.
\<close>

theorem consoleIo_autoDate_witness:
  "(let v' = context0 (consoleIo sampleDecls sampleConsoleEnv (autoDateSampleYear ''70'' 8 1285)) in
      \<not> autoDate v' \<and> ringKeys v' = [34, 27, 28, 28, 27, 29, 48, 29, 30, 28, 31, 27, 32, 48]) \<and>
   ringKeys (context0 (consoleIo sampleDecls \<lparr>hostKey = 0, localtimeNow = sampleTm2\<rparr>
                         (autoDateSampleYear ''70'' 8 1285)))
     = [34, 27, 27, 28, 30, 28, 48, 27, 34, 32, 36, 31, 27, 48] \<and>
   autoPos (context0 (consoleIo sampleDecls sampleConsoleEnv (autoDateSampleYear ''70'' 0 334))) = 2 \<and>
   autoPos (context0 (consoleIo sampleDecls sampleConsoleEnv (autoDateSampleYear ''70'' 4 334))) = 0"
proof -
  have e: "localtimeNow sampleConsoleEnv = sampleTm" by (simp add: sampleConsoleEnv_def)
  have y: "cAt ''70'' 0 = CHR ''7''" "cAt ''70'' (Suc 0) = CHR ''0''" by (simp_all add: cAt_def)
  have a: "\<not> autoDate (context0 (consoleIo sampleDecls sampleConsoleEnv (autoDateSampleYear ''70'' 8 1285)))"
    "ringKeys (context0 (consoleIo sampleDecls sampleConsoleEnv (autoDateSampleYear ''70'' 8 1285)))
       = [34, 27, 28, 28, 27, 29, 48, 29, 30, 28, 31, 27, 32, 48]"
    using consoleIo_autoDate [OF sample_year(1,2,3), of "''70''" 8 1285 sampleDecls sampleConsoleEnv]
      sample_match(1,2) sample_ring(1,2)
    by (simp_all add: Let_def sample_year(5) sample_ring(3) e y sample_stamps)
  have a2: "ringKeys (context0 (consoleIo sampleDecls \<lparr>hostKey = 0, localtimeNow = sampleTm2\<rparr>
                         (autoDateSampleYear ''70'' 8 1285)))
       = [34, 27, 27, 28, 30, 28, 48, 27, 34, 32, 36, 31, 27, 48]"
    using consoleIo_autoDate [OF sample_year(1,2,3), of "''70''" 8 1285 sampleDecls "\<lparr>hostKey = 0, localtimeNow = sampleTm2\<rparr>"]
      sample_match(1,2) sample_ring(1,2)
    by (simp add: Let_def sample_year(5) sample_ring(3) y sample_stamps)
  have b: "autoPos (context0 (consoleIo sampleDecls sampleConsoleEnv (autoDateSampleYear ''70'' 0 334))) = 2"
    using consoleIo_autoDate [OF sample_year(1,2,3), of "''70''" 0 334 sampleDecls sampleConsoleEnv] sample_match(3,4)
    by (simp add: Let_def sample_year(5) sample_ring(4))
  have c: "autoPos (context0 (consoleIo sampleDecls sampleConsoleEnv (autoDateSampleYear ''70'' 4 334))) = 0"
    using consoleIo_autoDate [OF sample_year(1,2,3), of "''70''" 4 334 sampleDecls sampleConsoleEnv] sample_match(5)
    by (simp add: Let_def sample_year(5))
  show ?thesis using a a2 b c by (simp add: Let_def)
qed


text \<open>
  Claim C7 as stated fails for a configured year of one character: with the year \<open>7\<close>
  the completed pattern on an empty ring queues the single key of \<open>7\<close>, not the
  fourteen keys of the time stamp.
\<close>

theorem consoleIo_autoDate_short_year:
  "(let s = autoDateSampleYear ''7'' 8 1285;
        v' = context0 (consoleIo sampleDecls sampleConsoleEnv s) in
      autoDate (context0 s) \<and> full (channel s) \<and> fcode s = Fc6612Sel32CharLeft \<and>
      autoDateMatch sampleDecls (data (channel s)) (context0 s) \<and> autoDateDone (context0 s) \<and>
      keyIn (context0 s) = keyOut (context0 s) \<and>
      \<not> autoDate v' \<and> ringKeys v' = [34] \<and> length (ringKeys v') \<noteq> 14)"
proof -
  have y: "cAt ''7'' 0 = CHR ''7''" "cAt ''7'' (Suc 0) = CHR 0x00" by (simp_all add: cAt_def)
  have k: "asciiToConsole sampleDecls 55 = 34" by (simp add: sampleDecls_def)
  have f: "fcode (autoDateSampleYear ''7'' 8 1285) = Fc6612Sel32CharLeft"
    by (simp add: autoDateSampleYear_def autoDateSample_def cvUpdate_def)
  have a: "\<not> autoDate (context0 (consoleIo sampleDecls sampleConsoleEnv (autoDateSampleYear ''7'' 8 1285)))"
    "ringKeys (context0 (consoleIo sampleDecls sampleConsoleEnv (autoDateSampleYear ''7'' 8 1285))) = [34]"
    using consoleIo_autoDate_keys [OF sample_year(1,2,3), of "''7''" 8 1285 sampleDecls sampleConsoleEnv]
      sample_match(1,2) sample_ring(1,2)
    by (simp_all add: Let_def sample_year(5) sample_ring(3) y k)
  show ?thesis
    using a f sample_year(2,3) sample_match(1,2) sample_ring(2)
    by (simp add: Let_def sample_year(5))
qed

end
